theory Spec2Isabelle
  imports Complex_Main
begin

section \<open>JavaScript values and string primitives\<close>

text \<open>
  The sources are JavaScript and TypeScript. Values that travel as JSON (hook events, SSE
  payloads, log lines, OTLP documents) are modelled by the datatype \<open>json\<close>. An object is
  an association list in property order. A looked-up property that is missing is \<open>None\<close>
  (JavaScript's \<open>undefined\<close>). Numbers are integers: fractional numbers and IEEE rounding
  are outside this type. Strings are lists of 8-bit characters, read as code units.
  \<open>JSON.parse\<close> is a primitive of the runtime and enters every definition that uses it as
  the parameter \<open>P\<close>, \<open>None\<close> standing for a thrown \<open>SyntaxError\<close>.
\<close>

datatype json =
    JNull
  | JBool bool
  | JNum int
  | JStr string
  | JArr "json list"
  | JObj "(string \<times> json) list"

text \<open>
  Property access \<open>v.k\<close> on a non-null value, for the property names the sources use
  (none is an index or \<open>length\<close>, and none is inherited from \<open>Object.prototype\<close>). On
  \<open>null\<close> the access throws; callers treat that case themselves.
\<close>

fun get_prop :: "json \<Rightarrow> string \<Rightarrow> json option" where
  "get_prop (JObj kvs) k = map_of kvs k"
| "get_prop _ k = None"

text \<open>Truthiness, and the nullish test of the \<open>??\<close> operator.\<close>

fun truthy :: "json \<Rightarrow> bool" where
  "truthy JNull = False"
| "truthy (JBool b) = b"
| "truthy (JNum n) = (n \<noteq> 0)"
| "truthy (JStr s) = (s \<noteq> [])"
| "truthy (JArr xs) = True"
| "truthy (JObj kvs) = True"

fun truthy_opt :: "json option \<Rightarrow> bool" where
  "truthy_opt None = False"
| "truthy_opt (Some v) = truthy v"

fun nullish :: "json option \<Rightarrow> bool" where
  "nullish None = True"
| "nullish (Some JNull) = True"
| "nullish (Some v) = False"

text \<open>\<open>a ?? b\<close>\<close>

definition coalesce :: "json option \<Rightarrow> json option \<Rightarrow> json option" where
  "coalesce a b = (if nullish a then b else a)"

subsection \<open>Strings\<close>

fun startsWith :: "string \<Rightarrow> string \<Rightarrow> bool" where
  "startsWith s [] = True"
| "startsWith [] (p # ps) = False"
| "startsWith (c # cs) (p # ps) = (if c = p then startsWith cs ps else False)"

definition endsWith :: "string \<Rightarrow> string \<Rightarrow> bool" where
  "endsWith s p = (length p \<le> length s \<and> drop (length s - length p) s = p)"

fun str_includes :: "string \<Rightarrow> string \<Rightarrow> bool" where
  "str_includes [] p = (p = [])"
| "str_includes (c # cs) p = (startsWith (c # cs) p \<or> str_includes cs p)"

text \<open>The white space and line terminators that \<open>trim\<close> removes, among the code units
  below 256.\<close>

definition is_space :: "char \<Rightarrow> bool" where
  "is_space c = (c \<in> set [CHR 0x09, CHR 0x0A, CHR 0x0B, CHR 0x0C, CHR 0x0D, CHR '' '', CHR 0xA0])"

definition trim :: "string \<Rightarrow> string" where
  "trim s = rev (dropWhile is_space (rev (dropWhile is_space s)))"

text \<open>\<open>s.split("\n")\<close>: never empty, \<open>"".split("\n")\<close> is \<open>[""]\<close>.\<close>

fun split_nl :: "string \<Rightarrow> string list" where
  "split_nl [] = [[]]"
| "split_nl (c # cs) =
     (if c = CHR 0x0A then [] # split_nl cs
      else (case split_nl cs of [] \<Rightarrow> [[c]] | l # ls \<Rightarrow> (c # l) # ls))"

text \<open>\<open>xs.join(sep)\<close> on strings.\<close>

fun join :: "string \<Rightarrow> string list \<Rightarrow> string" where
  "join sep [] = []"
| "join sep [x] = x"
| "join sep (x # y # ys) = x @ sep @ join sep (y # ys)"

subsection \<open>Decimal numerals\<close>

text \<open>The digit for a value below 16; it is used on such values only.\<close>

definition digit :: "nat \<Rightarrow> char" where
  "digit d = ''0123456789abcdef'' ! d"

function show_nat :: "nat \<Rightarrow> string" where
  "show_nat n = (if n < 10 then [digit n] else show_nat (n div 10) @ [digit (n mod 10)])"
  by pat_completeness auto
termination
  by (relation "measure id") auto

declare show_nat.simps [simp del]

definition show_int :: "int \<Rightarrow> string" where
  "show_int i = (if i < 0 then CHR ''-'' # show_nat (nat (- i)) else show_nat (nat i))"

subsection \<open>\<open>JSON.stringify\<close>\<close>

text \<open>
  Quoting of a string: the quote, the backslash and the control characters below
  \<open>0x20\<close> are escaped, everything else is copied.
\<close>

definition quote_char :: "char \<Rightarrow> string" where
  "quote_char c =
     (if c = CHR 0x22 then [CHR 0x5C, CHR 0x22]
      else if c = CHR 0x5C then [CHR 0x5C, CHR 0x5C]
      else if c = CHR 0x08 then [CHR 0x5C, CHR ''b'']
      else if c = CHR 0x0C then [CHR 0x5C, CHR ''f'']
      else if c = CHR 0x0A then [CHR 0x5C, CHR ''n'']
      else if c = CHR 0x0D then [CHR 0x5C, CHR ''r'']
      else if c = CHR 0x09 then [CHR 0x5C, CHR ''t'']
      else if of_char c < (32::nat)
        then [CHR 0x5C, CHR ''u'', CHR ''0'', CHR ''0'',
              digit (of_char c div 16), digit (of_char c mod 16)]
      else [c])"

definition quote :: "string \<Rightarrow> string" where
  "quote s = [CHR 0x22] @ concat (map quote_char s) @ [CHR 0x22]"

fun stringify :: "json \<Rightarrow> string"
  and stringify_elems :: "json list \<Rightarrow> string"
  and stringify_members :: "(string \<times> json) list \<Rightarrow> string" where
  "stringify JNull = ''null''"
| "stringify (JBool b) = (if b then ''true'' else ''false'')"
| "stringify (JNum n) = show_int n"
| "stringify (JStr s) = quote s"
| "stringify (JArr xs) = ''['' @ stringify_elems xs @ '']''"
| "stringify (JObj kvs) = ''{'' @ stringify_members kvs @ ''}''"
| "stringify_elems [] = []"
| "stringify_elems [x] = stringify x"
| "stringify_elems (x # y # ys) = stringify x @ '','' @ stringify_elems (y # ys)"
| "stringify_members [] = []"
| "stringify_members [(k, v)] = quote k @ '':'' @ stringify v"
| "stringify_members ((k, v) # kv # kvs) =
     quote k @ '':'' @ stringify v @ '','' @ stringify_members (kv # kvs)"

text \<open>
  \<open>JSON.stringify(undefined)\<close> is \<open>undefined\<close>: the source compares two such results with
  \<open>===\<close>, so the absent case is kept.
\<close>

fun stringify_opt :: "json option \<Rightarrow> string option" where
  "stringify_opt None = None"
| "stringify_opt (Some v) = Some (stringify v)"

subsection \<open>Objects: assignment and spread\<close>

text \<open>
  \<open>o[k] = v\<close> keeps the position of an existing key and appends a new one (keys that
  look like array indices, which the engine moves to the front, do not occur).
  A property assigned \<open>undefined\<close> reads as missing and is left out by \<open>JSON.stringify\<close>;
  it is modelled by removing the key.
\<close>

fun obj_set :: "'k \<Rightarrow> 'v \<Rightarrow> ('k \<times> 'v) list \<Rightarrow> ('k \<times> 'v) list" where
  "obj_set k v [] = [(k, v)]"
| "obj_set k v ((k', v') # kvs) =
     (if k = k' then (k, v) # kvs else (k', v') # obj_set k v kvs)"

definition obj_put :: "'k \<Rightarrow> 'v option \<Rightarrow> ('k \<times> 'v) list \<Rightarrow> ('k \<times> 'v) list" where
  "obj_put k v kvs = (case v of None \<Rightarrow> filter (\<lambda>(k', _). k' \<noteq> k) kvs | Some x \<Rightarrow> obj_set k x kvs)"

text \<open>The own enumerable properties that \<open>{...v}\<close> copies.\<close>

fun own_entries :: "json \<Rightarrow> (string \<times> json) list" where
  "own_entries (JObj kvs) = kvs"
| "own_entries (JArr xs) = zip (map show_nat [0..<length xs]) xs"
| "own_entries (JStr s) = zip (map show_nat [0..<length s]) (map (\<lambda>c. JStr [c]) s)"
| "own_entries _ = []"

definition spread :: "(string \<times> json) list \<Rightarrow> json \<Rightarrow> (string \<times> json) list" where
  "spread acc v = foldl (\<lambda>a (k, x). obj_set k x a) acc (own_entries v)"

text \<open>
  \<open>String(v)\<close>, the coercion behind \<open>+=\<close> on a string.
\<close>

fun js_string :: "json \<Rightarrow> string" where
  "js_string JNull = ''null''"
| "js_string (JBool b) = (if b then ''true'' else ''false'')"
| "js_string (JNum n) = show_int n"
| "js_string (JStr s) = s"
| "js_string (JArr xs) = join '','' (map (\<lambda>x. if x = JNull then [] else js_string x) xs)"
| "js_string (JObj kvs) = ''[object Object]''"

text \<open>
  \<open>x || d\<close> where \<open>x\<close> is a token count or a model name of the provider's wire format:
  a number (a string), \<open>null\<close> or missing. Other JSON types do not occur in these
  positions and are read like \<open>null\<close>.
\<close>

fun num_or :: "json option \<Rightarrow> int \<Rightarrow> int" where
  "num_or (Some (JNum n)) d = (if n = 0 then d else n)"
| "num_or _ d = d"

fun str_or :: "json option \<Rightarrow> string \<Rightarrow> string" where
  "str_or (Some (JStr s)) d = (if s = [] then d else s)"
| "str_or _ d = d"

section \<open>Spans\<close>

text \<open>
  The span handle of the OpenTelemetry API with the four operations the sources call.
  Identifiers are natural numbers; the SDK draws them at random.
\<close>

datatype SpanStatusCode = UNSET | OK | ERROR

datatype SpanKind = INTERNAL | SERVER | CLIENT | PRODUCER | CONSUMER

datatype attr = AStr string | AInt int | ARat rat | ABool bool

record span =
  traceId :: nat
  spanId :: nat
  parentSpanId :: "nat option"
  name :: string
  kind :: SpanKind
  attributes :: "(string \<times> attr) list"
  status :: SpanStatusCode
  statusMessage :: "string option"
  exceptions :: "string list"
  ended :: bool

definition setAttributes :: "(string \<times> attr) list \<Rightarrow> span \<Rightarrow> span" where
  "setAttributes kvs sp = sp\<lparr>attributes := foldl (\<lambda>a (k, v). obj_set k v a) (attributes sp) kvs\<rparr>"

definition setStatus :: "SpanStatusCode \<Rightarrow> string option \<Rightarrow> span \<Rightarrow> span" where
  "setStatus c m sp = sp\<lparr>status := c, statusMessage := m\<rparr>"

definition recordException :: "string \<Rightarrow> span \<Rightarrow> span" where
  "recordException e sp = sp\<lparr>exceptions := exceptions sp @ [e]\<rparr>"

definition end_span :: "span \<Rightarrow> span" where
  "end_span sp = sp\<lparr>ended := True\<rparr>"

definition attribute :: "span \<Rightarrow> string \<Rightarrow> attr option" where
  "attribute sp k = map_of (attributes sp) k"

section \<open>The fetch interceptor (\<open>global.fetch\<close> in \<open>src/spawn-preload.cjs\<close>)\<close>

text \<open>
  The interceptor wraps \<open>global.fetch\<close>. The model starts where a request has matched
  the provider's host, and follows the response path: reading the body (plain JSON or
  server-sent events), extracting usage, computing the cost, completing the span.
  Arithmetic on money is exact (rationals) where the source uses IEEE doubles.
  \<open>estimateTokenCount\<close> divides by \<open>3.7\<close> in floating point and splits on a regular
  expression; it enters as the parameter \<open>est\<close>. Appends to \<open>events.jsonl\<close> are taken to
  succeed; the lines written are part of the result.
\<close>

subsection \<open>Pricing and cost\<close>

record pricing =
  rate_input :: rat
  rate_output :: rat
  rate_cacheRead :: rat
  rate_cacheWrite :: rat

definition default_model :: string where
  "default_model = ''claude-3-5-sonnet-20241022''"

definition modelPricing :: "(string \<times> pricing) list" where
  "modelPricing =
    [(''claude-3-5-sonnet-20241022'',
        \<lparr>rate_input = 3, rate_output = 15, rate_cacheRead = 3 / 10, rate_cacheWrite = 375 / 100\<rparr>),
     (''claude-sonnet-4-20250514'',
        \<lparr>rate_input = 3, rate_output = 15, rate_cacheRead = 3 / 10, rate_cacheWrite = 375 / 100\<rparr>),
     (''claude-3-5-haiku-20241022'',
        \<lparr>rate_input = 1, rate_output = 5, rate_cacheRead = 1 / 10, rate_cacheWrite = 125 / 100\<rparr>),
     (''claude-3-opus-20240229'',
        \<lparr>rate_input = 15, rate_output = 75, rate_cacheRead = 15 / 10, rate_cacheWrite = 1875 / 100\<rparr>)]"

text \<open>
  \<open>modelPricing[model] || modelPricing["claude-3-5-sonnet-20241022"]\<close>, for the model
  identifiers of the provider (a name inherited from \<open>Object.prototype\<close>, such as
  \<open>constructor\<close>, is not one of them).
\<close>

definition pricing_of :: "string \<Rightarrow> pricing" where
  "pricing_of model =
     (case map_of modelPricing model of
        Some p \<Rightarrow> p
      | None \<Rightarrow> \<lparr>rate_input = 3, rate_output = 15, rate_cacheRead = 3 / 10, rate_cacheWrite = 375 / 100\<rparr>)"

definition calculateModelCost :: "string \<Rightarrow> json \<Rightarrow> int \<Rightarrow> rat" where
  "calculateModelCost model usage estimatedInputTokens =
     (let pricing = pricing_of model;
          inputTokens = num_or (get_prop usage ''input_tokens'') estimatedInputTokens;
          outputTokens = num_or (get_prop usage ''output_tokens'') 0;
          cacheReadTokens = num_or (get_prop usage ''cache_read_input_tokens'') 0;
          cacheCreationTokens = num_or (get_prop usage ''cache_creation_input_tokens'') 0;
          inputCost = (of_int inputTokens * rate_input pricing) / 1000000;
          outputCost = (of_int outputTokens * rate_output pricing) / 1000000;
          cacheReadCost = (of_int cacheReadTokens * rate_cacheRead pricing) / 1000000;
          cacheWriteCost = (of_int cacheCreationTokens * rate_cacheWrite pricing) / 1000000
      in inputCost + outputCost + cacheReadCost + cacheWriteCost)"

text \<open>
  \<open>parseFloat(cost.toFixed(6))\<close>: \<open>toFixed\<close> takes the integer \<open>n\<close> with \<open>n / 10^6\<close>
  closest to the magnitude, the larger one on a tie, and keeps the sign.
\<close>

definition toFixed6 :: "rat \<Rightarrow> rat" where
  "toFixed6 x =
     (if x < 0 then - (of_int \<lfloor>- x * 1000000 + 1 / 2\<rfloor> / 1000000)
      else of_int \<lfloor>x * 1000000 + 1 / 2\<rfloor> / 1000000)"

definition truncateContent :: "string \<Rightarrow> nat \<Rightarrow> string option" where
  "truncateContent content maxLength =
     (if content = [] then None
      else if length content \<le> maxLength then Some content
      else Some (take maxLength content @ ''... [TRUNCATED]''))"

subsection \<open>Reading the response body\<close>

text \<open>
  One \<open>data:\<close> line of an event stream. \<open>sse_data\<close> is the value bound to \<open>data\<close> when
  the body of the \<open>try\<close> runs: the terminator is skipped, a line that does not parse
  throws, and \<open>null\<close> throws at \<open>data.type\<close>; both are caught and the loop goes on.
\<close>

definition sse_data :: "(string \<Rightarrow> json option) \<Rightarrow> string \<Rightarrow> json option" where
  "sse_data P line =
     (let jsonStr = drop 6 line
      in if jsonStr = ''[DONE]'' then None
         else (case P jsonStr of None \<Rightarrow> None | Some JNull \<Rightarrow> None | Some data \<Rightarrow> Some data))"

text \<open>\<open>data.delta?.text\<close>\<close>

definition delta_text :: "json \<Rightarrow> json option" where
  "delta_text data =
     (if nullish (get_prop data ''delta'') then None
      else (case get_prop data ''delta'' of None \<Rightarrow> None | Some d \<Rightarrow> get_prop d ''text''))"

definition collect_text :: "string \<Rightarrow> json \<Rightarrow> string" where
  "collect_text fullContent data =
     (if get_prop data ''type'' = Some (JStr ''content_block_delta'') \<and> truthy_opt (delta_text data)
      then (case delta_text data of None \<Rightarrow> fullContent | Some t \<Rightarrow> fullContent @ js_string t)
      else fullContent)"

text \<open>
  The merge of two usage objects:
  \<open>{...currentUsage, ...newUsage, input_tokens: newUsage.input_tokens ?? currentUsage.input_tokens, ...}\<close>
\<close>

definition mergedUsage :: "json \<Rightarrow> json \<Rightarrow> json" where
  "mergedUsage currentUsage newUsage =
     JObj
      (obj_put ''cache_read_input_tokens''
         (coalesce (get_prop newUsage ''cache_read_input_tokens'')
                   (get_prop currentUsage ''cache_read_input_tokens''))
      (obj_put ''cache_creation_input_tokens''
         (coalesce (get_prop newUsage ''cache_creation_input_tokens'')
                   (get_prop currentUsage ''cache_creation_input_tokens''))
      (obj_put ''input_tokens''
         (coalesce (get_prop newUsage ''input_tokens'') (get_prop currentUsage ''input_tokens''))
      (spread (spread [] currentUsage) newUsage))))"

definition merge_usage :: "json option \<Rightarrow> json \<Rightarrow> json option" where
  "merge_usage responseData data =
     (case get_prop data ''usage'' of
        None \<Rightarrow> responseData
      | Some newUsage \<Rightarrow>
          if \<not> truthy newUsage then responseData
          else (case responseData of
                  None \<Rightarrow> Some data
                | Some r \<Rightarrow>
                    (case get_prop r ''usage'' of
                       None \<Rightarrow> Some data
                     | Some currentUsage \<Rightarrow>
                         if \<not> truthy currentUsage then Some data
                         else Some (JObj (obj_set ''usage'' (mergedUsage currentUsage newUsage)
                                            (spread (spread [] r) data))))))"

definition sse_step ::
  "(string \<Rightarrow> json option) \<Rightarrow> json option \<times> string \<Rightarrow> string \<Rightarrow> json option \<times> string" where
  "sse_step P acc line =
     (case sse_data P line of
        None \<Rightarrow> acc
      | Some data \<Rightarrow> (merge_usage (fst acc) data, collect_text (snd acc) data))"

definition dataLines :: "string \<Rightarrow> string list" where
  "dataLines responseBody = filter (\<lambda>line. startsWith line ''data: '') (split_nl responseBody)"

definition sse_loop :: "(string \<Rightarrow> json option) \<Rightarrow> string \<Rightarrow> json option \<times> string" where
  "sse_loop P responseBody = foldl (sse_step P) (None, []) (dataLines responseBody)"

text \<open>The text of a plain JSON response: the \<open>text\<close> blocks joined by newlines.\<close>

definition block_text :: "json \<Rightarrow> string" where
  "block_text block =
     (if nullish (get_prop block ''text'') then []
      else (case get_prop block ''text'' of None \<Rightarrow> [] | Some t \<Rightarrow> js_string t))"

definition textContent :: "json list \<Rightarrow> string" where
  "textContent blocks =
     join [CHR 0x0A]
       (map block_text (filter (\<lambda>block. get_prop block ''type'' = Some (JStr ''text'')) blocks))"

text \<open>
  \<open>read_body\<close> gives \<open>responseData\<close> and the text of \<open>responseContent\<close>; \<open>None\<close> is an
  exception inside the \<open>try\<close> (a body that is not JSON, \<open>null\<close>, a \<open>null\<close> content block).
\<close>

definition read_body ::
  "(string \<Rightarrow> json option) \<Rightarrow> string \<Rightarrow> (json option \<times> string option) option" where
  "read_body P responseBody =
     (if startsWith responseBody ''event:'' \<or> str_includes responseBody ''data:''
      then (let r = sse_loop P responseBody
            in Some (fst r, if snd r \<noteq> [] then Some (snd r) else None))
      else (case P responseBody of
              None \<Rightarrow> None
            | Some JNull \<Rightarrow> None
            | Some responseData \<Rightarrow>
                (case get_prop responseData ''content'' of
                   Some (JArr blocks) \<Rightarrow>
                     if JNull \<in> set blocks then None
                     else Some (Some responseData,
                                if textContent blocks \<noteq> [] then Some (textContent blocks) else None)
                 | _ \<Rightarrow> Some (Some responseData, None))))"

subsection \<open>Tool-use requests written for the correlator\<close>

text \<open>
  Every \<open>tool_use\<close> block of the response is appended to \<open>events.jsonl\<close> as one line.
  A \<open>null\<close> block throws at \<open>block.type\<close>: the lines before it are written, and the
  second component tells whether the loop went through.
\<close>

definition toolUseEvent :: "string \<Rightarrow> json \<Rightarrow> json" where
  "toolUseEvent now block =
     JObj (obj_put ''sessionId'' (Some (JStr ''unknown''))
          (obj_put ''toolInput'' (get_prop block ''input'')
          (obj_put ''toolName'' (get_prop block ''name'')
          (obj_put ''toolUseId'' (get_prop block ''id'')
             [(''eventType'', JStr ''tool_use_request''), (''timestamp'', JStr now)]))))"

definition tool_use_lines :: "string \<Rightarrow> json option \<Rightarrow> string list \<times> bool" where
  "tool_use_lines now responseData =
     (case responseData of
        None \<Rightarrow> ([], True)
      | Some r \<Rightarrow>
          (case get_prop r ''content'' of
             Some (JArr blocks) \<Rightarrow>
               (map (\<lambda>block. stringify (toolUseEvent now block) @ [CHR 0x0A])
                  (filter (\<lambda>block. get_prop block ''type'' = Some (JStr ''tool_use''))
                     (takeWhile (\<lambda>block. block \<noteq> JNull) blocks)),
                JNull \<notin> set blocks)
           | _ \<Rightarrow> ([], True)))"

subsection \<open>Enhanced data and the completed span\<close>

record enhanced =
  model :: string
  tokensInput :: int
  tokensOutput :: int
  tokensCacheRead :: int
  tokensCacheCreation :: int
  tokensTotal :: int
  costUsd :: rat
  inputTokenSource :: string
  promptText :: "string option"
  responseText :: "string option"

text \<open>
  \<open>requestContent\<close> is the object \<open>{messages, system}\<close> taken from the request body, or
  \<open>None\<close> when there is no parsable POST body.
\<close>

definition enhance ::
  "(string \<Rightarrow> int) \<Rightarrow> json option \<Rightarrow> string option \<Rightarrow> json option \<Rightarrow> enhanced option" where
  "enhance est responseData responseContent requestContent =
     (case responseData of
        None \<Rightarrow> None
      | Some r \<Rightarrow>
          (case get_prop r ''usage'' of
             None \<Rightarrow> None
           | Some usage \<Rightarrow>
               if \<not> truthy usage then None
               else
                 (let model = str_or (get_prop r ''model'') default_model;
                      estimated = (\<not> truthy_opt (get_prop usage ''input_tokens'') \<and> requestContent \<noteq> None);
                      inputTokens =
                        (case requestContent of
                           Some rc \<Rightarrow>
                             if estimated then Some (JNum (est (stringify rc)))
                             else get_prop usage ''input_tokens''
                         | None \<Rightarrow> get_prop usage ''input_tokens'');
                      finalInputTokens = num_or inputTokens 0;
                      cost = calculateModelCost model usage finalInputTokens
                  in Some
                       \<lparr>model = model,
                        tokensInput = finalInputTokens,
                        tokensOutput = num_or (get_prop usage ''output_tokens'') 0,
                        tokensCacheRead = num_or (get_prop usage ''cache_read_input_tokens'') 0,
                        tokensCacheCreation = num_or (get_prop usage ''cache_creation_input_tokens'') 0,
                        tokensTotal = finalInputTokens + num_or (get_prop usage ''output_tokens'') 0,
                        costUsd = toFixed6 cost,
                        inputTokenSource = (if estimated then ''estimated'' else ''api''),
                        promptText =
                          (case requestContent of
                             Some rc \<Rightarrow> truncateContent (stringify rc) 10000
                           | None \<Rightarrow> None),
                        responseText =
                          (case responseContent of
                             Some t \<Rightarrow> truncateContent t 10000
                           | None \<Rightarrow> None)\<rparr>)))"

text \<open>
  The inner \<open>try\<close> of the response path: the enhanced data (\<open>None\<close> for the empty
  object, also after a caught exception) and the lines appended for the correlator.
\<close>

definition analyse ::
  "(string \<Rightarrow> json option) \<Rightarrow> (string \<Rightarrow> int) \<Rightarrow> string \<Rightarrow> json option \<Rightarrow> string
     \<Rightarrow> enhanced option \<times> string list" where
  "analyse P est now requestContent responseBody =
     (case read_body P responseBody of
        None \<Rightarrow> (None, [])
      | Some (responseData, responseContent) \<Rightarrow>
          (let w = tool_use_lines now responseData
           in (if snd w then enhance est responseData responseContent requestContent else None,
               fst w)))"

text \<open>
  The outcome of the wrapped call: a response with its status code and body, or a
  rejection (a network error) with its message. \<open>response.ok\<close> is the Fetch standard's
  test for a status from 200 to 299.
\<close>

datatype fetched = Responded nat string | Rejected string

definition response_ok :: "nat \<Rightarrow> bool" where
  "response_ok code = (200 \<le> code \<and> code \<le> 299)"

definition ai_attributes :: "enhanced \<Rightarrow> (string \<times> attr) list" where
  "ai_attributes e =
     [(''ai.model'', AStr (model e)),
      (''ai.tokens.input'', AInt (tokensInput e)),
      (''ai.tokens.output'', AInt (tokensOutput e)),
      (''ai.cache.read'', AInt (tokensCacheRead e)),
      (''ai.cache.write'', AInt (tokensCacheCreation e)),
      (''ai.cost.usd'', ARat (costUsd e))]
     @ (case promptText e of Some t \<Rightarrow> [(''ai.prompt'', AStr t)] | None \<Rightarrow> [])
     @ (case responseText e of Some t \<Rightarrow> [(''ai.response'', AStr t)] | None \<Rightarrow> [])"

text \<open>
  Completion of the API span \<open>sp\<close> that was started for the request; \<open>duration\<close> is
  \<open>responseTimestamp - requestTimestamp\<close>.
\<close>

definition complete_api_span ::
  "(string \<Rightarrow> json option) \<Rightarrow> (string \<Rightarrow> int) \<Rightarrow> string \<Rightarrow> json option \<Rightarrow> int
     \<Rightarrow> fetched \<Rightarrow> span \<Rightarrow> span" where
  "complete_api_span P est now requestContent duration outcome sp =
     (case outcome of
        Rejected message \<Rightarrow> end_span (setStatus ERROR (Some message) (recordException message sp))
      | Responded code responseBody \<Rightarrow>
          (let enhancedData = fst (analyse P est now requestContent responseBody);
               sp1 = setAttributes
                       [(''http.status_code'', AInt (int code)), (''ai.duration.ms'', AInt duration)] sp;
               sp2 = (case enhancedData of
                        None \<Rightarrow> sp1
                      | Some e \<Rightarrow> if model e \<noteq> [] then setAttributes (ai_attributes e) sp1 else sp1)
           in end_span (setStatus (if response_ok code then OK else ERROR) None sp2)))"

text \<open>
  A parser for examples: it recognises exactly the serialisations of the listed values,
  on which it agrees with \<open>JSON.parse\<close>.
\<close>

definition parser_for :: "json list \<Rightarrow> string \<Rightarrow> json option" where
  "parser_for vs s = find (\<lambda>v. stringify v = s) vs"

text \<open>
  The policy "later non-null values override earlier ones" on the successive values of
  one usage field.
\<close>

fun prefer_non_null :: "json option list \<Rightarrow> json option" where
  "prefer_non_null [] = None"
| "prefer_non_null (v # vs) = foldl (\<lambda>cur new. coalesce new cur) v vs"

text \<open>The events of a stream that carry a usage, and a usage field of an event.\<close>

definition usage_events :: "(string \<Rightarrow> json option) \<Rightarrow> string \<Rightarrow> json list" where
  "usage_events P responseBody =
     filter (\<lambda>data. truthy_opt (get_prop data ''usage''))
       (List.map_filter (sse_data P) (dataLines responseBody))"

definition usage_field :: "string \<Rightarrow> json option \<Rightarrow> json option" where
  "usage_field k responseData =
     (case responseData of
        None \<Rightarrow> None
      | Some r \<Rightarrow> (case get_prop r ''usage'' of None \<Rightarrow> None | Some u \<Rightarrow> get_prop u k))"

text \<open>
  The sum of the claim: for each of the four token kinds, tokens times the rate of the
  kind, divided by \<open>10^6\<close>.
\<close>

definition token_cost_sum :: "pricing \<Rightarrow> int \<Rightarrow> int \<Rightarrow> int \<Rightarrow> int \<Rightarrow> rat" where
  "token_cost_sum r tokens_in tokens_out cache_read cache_write =
     of_int tokens_in * rate_input r / 1000000 + of_int tokens_out * rate_output r / 1000000
     + of_int cache_read * rate_cacheRead r / 1000000
     + of_int cache_write * rate_cacheWrite r / 1000000"

subsection \<open>Example inputs\<close>

definition example_span :: span where
  "example_span =
     \<lparr>traceId = 1, spanId = 2, parentSpanId = Some 1,
      name = ''API POST https://api.anthropic.com/v1/messages'', kind = CLIENT,
      attributes = [], status = UNSET, statusMessage = None, exceptions = [], ended = False\<rparr>"

definition no_estimate :: "string \<Rightarrow> int" where
  "no_estimate s = 0"

definition sse_start :: json where
  "sse_start = JObj [(''type'', JStr ''message_start''), (''usage'', JObj [(''input_tokens'', JNum 200)])]"

definition sse_delta :: json where
  "sse_delta =
     JObj [(''type'', JStr ''message_delta''),
           (''usage'', JObj [(''input_tokens'', JNum 5), (''output_tokens'', JNum 3)])]"

definition sse_body :: string where
  "sse_body =
     ''data: {\"type\":\"message_start\",\"usage\":{\"input_tokens\":200}}'' @ [CHR 0x0A] @
     ''data: {\"type\":\"message_delta\",\"usage\":{\"input_tokens\":5,\"output_tokens\":3}}'' @ [CHR 0x0A] @
     ''data: [DONE]'' @ [CHR 0x0A]"

definition json_reply :: json where
  "json_reply =
     JObj [(''model'', JStr ''M''),
           (''usage'', JObj [(''input_tokens'', JNum 100), (''output_tokens'', JNum 50),
                             (''cache_read_input_tokens'', JNum 0),
                             (''cache_creation_input_tokens'', JNum 0)]),
           (''content'', JArr [JObj [(''type'', JStr ''text''), (''text'', JStr ''hello'')]])]"

definition json_reply_cached :: json where
  "json_reply_cached =
     JObj [(''model'', JStr ''claude-3-5-sonnet-20241022''),
           (''usage'', JObj [(''input_tokens'', JNum 100), (''output_tokens'', JNum 50),
                             (''cache_read_input_tokens'', JNum 1),
                             (''cache_creation_input_tokens'', JNum 0)])]"

subsection \<open>Auxiliary notions for the proofs about the stream\<close>

definition merged_keys :: "string set" where
  "merged_keys = {''input_tokens'', ''cache_creation_input_tokens'', ''cache_read_input_tokens''}"

definition has_usage :: "json \<Rightarrow> bool" where
  "has_usage data = truthy_opt (get_prop data ''usage'')"

text \<open>The enhanced data of the plain JSON reply of the examples.\<close>

definition json_reply_enhanced :: enhanced where
  "json_reply_enhanced =
     \<lparr>model = ''M'', tokensInput = 100, tokensOutput = 50, tokensCacheRead = 0,
      tokensCacheCreation = 0, tokensTotal = 150, costUsd = 105 / 100000,
      inputTokenSource = ''api'', promptText = None, responseText = Some ''hello''\<rparr>"

section \<open>The tracer (\<open>initializeTracer\<close>, \<open>startSpan\<close> and the span constructors of the module \<open>otel-tracer\<close>)\<close>

text \<open>
  The module keeps one tracer per process: the configuration, the root span and the
  provider. The SDK behind it decides a new span's identifiers: the span id is drawn at
  random; a span started in a context that holds a parent span takes the parent's trace
  id and records the parent's span id; a span started in a context without a span draws
  a new trace id and has no parent. No context manager is registered, so
  \<open>context.active()\<close> never holds a span. The random source of a process is the function
  \<open>rng\<close> together with the number of draws made so far.
\<close>

record CCProfileConfig =
  runId :: string
  sessionId :: string
  outputDir :: string
  serviceName :: "string option"
  serviceVersion :: "string option"
  parentSessionId :: "string option"

record tracer =
  currentConfig :: CCProfileConfig
  rootSpan :: span
  rng :: "nat \<Rightarrow> nat"
  drawn :: nat

text \<open>\<open>tracer.startSpan(name, {kind, attributes}, ctx)\<close> of the SDK; \<open>parent\<close> is the span
  held by \<open>ctx\<close>, if any.\<close>

definition sdk_startSpan ::
  "string \<Rightarrow> SpanKind \<Rightarrow> (string \<times> attr) list \<Rightarrow> span option \<Rightarrow> (nat \<Rightarrow> nat) \<Rightarrow> nat
     \<Rightarrow> span \<times> nat" where
  "sdk_startSpan nm k attrs parent gen n =
     (case parent of
        None \<Rightarrow>
          (\<lparr>traceId = gen (n + 1), spanId = gen n, parentSpanId = None, name = nm, kind = k,
            attributes = foldl (\<lambda>a (k, v). obj_set k v a) [] attrs, status = UNSET,
            statusMessage = None, exceptions = [], ended = False\<rparr>, n + 2)
      | Some p \<Rightarrow>
          (\<lparr>traceId = traceId p, spanId = gen n, parentSpanId = Some (spanId p), name = nm, kind = k,
            attributes = foldl (\<lambda>a (k, v). obj_set k v a) [] attrs, status = UNSET,
            statusMessage = None, exceptions = [], ended = False\<rparr>, n + 1))"

text \<open>\<open>initializeTracer(config)\<close> in a process whose random source is \<open>gen\<close>.\<close>

definition initializeTracer :: "CCProfileConfig \<Rightarrow> (nat \<Rightarrow> nat) \<Rightarrow> tracer" where
  "initializeTracer config gen =
     (let rootAttributes =
            [(''session.id'', AStr (sessionId config)), (''run.id'', AStr (runId config))]
            @ (case parentSessionId config of
                 Some p \<Rightarrow> if p \<noteq> [] then [(''parent.session.id'', AStr p)] else []
               | None \<Rightarrow> []);
          r = sdk_startSpan ''Claude Code Session'' INTERNAL rootAttributes None gen 0
      in \<lparr>currentConfig = config, rootSpan = fst r, rng = gen, drawn = snd r\<rparr>)"

text \<open>\<open>startSpan(name, options)\<close>: the context is \<open>trace.setSpan(context.active(), getRootSpan())\<close>.\<close>

definition startSpan ::
  "string \<Rightarrow> SpanKind \<Rightarrow> (string \<times> attr) list \<Rightarrow> tracer \<Rightarrow> span \<times> tracer" where
  "startSpan nm k attrs t =
     (let r = sdk_startSpan nm k attrs (Some (rootSpan t)) (rng t) (drawn t)
      in (fst r, t\<lparr>drawn := snd r\<rparr>))"

definition startApiCallSpan :: "string \<Rightarrow> string \<Rightarrow> tracer \<Rightarrow> span \<times> tracer" where
  "startApiCallSpan url method t =
     startSpan (''API '' @ method @ '' '' @ url) CLIENT
       [(''http.method'', AStr method), (''http.url'', AStr url)] t"

definition startHookEventSpan :: "string \<Rightarrow> string option \<Rightarrow> tracer \<Rightarrow> span \<times> tracer" where
  "startHookEventSpan eventName toolName t =
     (case toolName of
        Some tn \<Rightarrow>
          if tn \<noteq> []
          then startSpan (''Hook: '' @ eventName @ ''['' @ tn @ '']'') INTERNAL
                 [(''hook.event'', AStr eventName), (''tool.name'', AStr tn)] t
          else startSpan (''Hook: '' @ eventName) INTERNAL [(''hook.event'', AStr eventName)] t
      | None \<Rightarrow> startSpan (''Hook: '' @ eventName) INTERNAL [(''hook.event'', AStr eventName)] t)"

text \<open>\<open>startHookExecutionSpan(command, parentSpan, isExclusive)\<close>: the context holds
  \<open>parentSpan\<close>.\<close>

definition startHookExecutionSpan :: "string \<Rightarrow> span \<Rightarrow> bool \<Rightarrow> tracer \<Rightarrow> span \<times> tracer" where
  "startHookExecutionSpan command parentSpan isExclusive t =
     (let r = sdk_startSpan (''Hook Execution: '' @ command) INTERNAL
                [(''hook.command'', AStr command), (''hook.exclusive'', ABool isExclusive)]
                (Some parentSpan) (rng t) (drawn t)
      in (fst r, t\<lparr>drawn := snd r\<rparr>))"

text \<open>
  \<open>startEnhancedToolSpan(toolName, input, mcpServer, parentSpan)\<close>: with a parent span the
  context holds it; without one the context passed is \<open>undefined\<close> and the SDK falls back
  to \<open>context.active()\<close>. \<open>input\<close> is already the attribute text (the string itself, or
  its \<open>JSON.stringify\<close>), \<open>None\<close> when the input is falsy.
\<close>

definition startEnhancedToolSpan ::
  "string \<Rightarrow> string option \<Rightarrow> string option \<Rightarrow> span option \<Rightarrow> tracer \<Rightarrow> span \<times> tracer" where
  "startEnhancedToolSpan toolName inp mcpServer parentSpan t =
     (let attrs = [(''tool.name'', AStr toolName)]
                  @ (case inp of Some i \<Rightarrow> [(''tool.input'', AStr i)] | None \<Rightarrow> [])
                  @ (case mcpServer of
                       Some m \<Rightarrow> if m \<noteq> [] then [(''mcp.server'', AStr m)] else []
                     | None \<Rightarrow> []);
          r = sdk_startSpan (''Tool: '' @ toolName) INTERNAL attrs parentSpan (rng t) (drawn t)
      in (fst r, t\<lparr>drawn := snd r\<rparr>))"

text \<open>
  A process's use of the tracer, as a script: each step starts a span through
  \<open>startSpan\<close> (API call and hook event spans), or starts a hook execution span under
  the span started by an earlier step of the script (by position).
\<close>

datatype tracer_op =
    StartApiCall string string
  | StartHookEvent string "string option"
  | StartHookExecution string nat bool

fun run_op :: "tracer_op \<Rightarrow> span list \<times> tracer \<Rightarrow> span list \<times> tracer" where
  "run_op (StartApiCall url method) (started, t) =
     (let r = startApiCallSpan url method t in (started @ [fst r], snd r))"
| "run_op (StartHookEvent eventName toolName) (started, t) =
     (let r = startHookEventSpan eventName toolName t in (started @ [fst r], snd r))"
| "run_op (StartHookExecution command i isExclusive) (started, t) =
     (if i < length started
      then (let r = startHookExecutionSpan command (started ! i) isExclusive t
            in (started @ [fst r], snd r))
      else (started, t))"

definition run_ops :: "tracer_op list \<Rightarrow> tracer \<Rightarrow> span list \<times> tracer" where
  "run_ops ops t = foldl (\<lambda>s x. run_op x s) ([], t) ops"

definition host_config :: CCProfileConfig where
  "host_config =
     \<lparr>runId = ''run-1'', sessionId = ''unknown'', outputDir = ''/logs/run-1'',
      serviceName = Some ''claude-code'', serviceVersion = Some ''1.0.0'', parentSessionId = None\<rparr>"

definition orchestrator_config :: CCProfileConfig where
  "orchestrator_config =
     \<lparr>runId = ''run-1'', sessionId = ''s-1'', outputDir = ''/logs/run-1'',
      serviceName = None, serviceVersion = None, parentSessionId = None\<rparr>"

text \<open>The random draws of two processes of one run.\<close>

definition host_rng :: "nat \<Rightarrow> nat" where
  "host_rng n = 1000 + n"

definition orchestrator_rng :: "nat \<Rightarrow> nat" where
  "orchestrator_rng n = 2000 + n"

section \<open>The tool-use correlator (\<open>findRecentToolUseId\<close>, \<open>createToolExecutionSpan\<close> in \<open>src/spawn-preload.cjs\<close>)\<close>

subsection \<open>\<open>findRecentToolUseId\<close>\<close>

text \<open>
  \<open>a === b\<close> on values taken from two parsed documents: primitives compare by value,
  two arrays or objects are never the same object, \<open>undefined\<close> equals only itself.
\<close>

fun strict_eq :: "json option \<Rightarrow> json option \<Rightarrow> bool" where
  "strict_eq None None = True"
| "strict_eq (Some JNull) (Some JNull) = True"
| "strict_eq (Some (JBool a)) (Some (JBool b)) = (a = b)"
| "strict_eq (Some (JNum a)) (Some (JNum b)) = (a = b)"
| "strict_eq (Some (JStr a)) (Some (JStr b)) = (a = b)"
| "strict_eq _ _ = False"

text \<open>The test inside the loop, on the parsed line.\<close>

definition intention_matches :: "json option \<Rightarrow> json option \<Rightarrow> json \<Rightarrow> bool" where
  "intention_matches toolName toolInput event =
     (get_prop event ''eventType'' = Some (JStr ''tool_use_request'')
      \<and> strict_eq (get_prop event ''toolName'') toolName
      \<and> stringify_opt (get_prop event ''toolInput'') = stringify_opt toolInput)"

text \<open>
  The loop over \<open>recentLines\<close>, here already reversed (most recent first). A line that
  does not parse, and a line that parses to \<open>null\<close>, throw inside the \<open>try\<close> and are
  skipped. The result is \<open>event.toolUseId\<close> of the first match (\<open>None\<close> when that property
  is missing), and \<open>null\<close> when the loop ends.
\<close>

fun search_intentions ::
  "(string \<Rightarrow> json option) \<Rightarrow> json option \<Rightarrow> json option \<Rightarrow> string list \<Rightarrow> json option" where
  "search_intentions P toolName toolInput [] = Some JNull"
| "search_intentions P toolName toolInput (line # older) =
     (case P line of
        None \<Rightarrow> search_intentions P toolName toolInput older
      | Some JNull \<Rightarrow> search_intentions P toolName toolInput older
      | Some event \<Rightarrow>
          if intention_matches toolName toolInput event then get_prop event ''toolUseId''
          else search_intentions P toolName toolInput older)"

text \<open>\<open>fileContent.trim().split("\n").filter((line) => line.trim())\<close>\<close>

definition nonblank_lines :: "string \<Rightarrow> string list" where
  "nonblank_lines fileContent = filter (\<lambda>line. trim line \<noteq> []) (split_nl (trim fileContent))"

text \<open>\<open>lines.slice(-50)\<close>\<close>

definition recentLines :: "string \<Rightarrow> string list" where
  "recentLines fileContent =
     drop (length (nonblank_lines fileContent) - 50) (nonblank_lines fileContent)"

text \<open>\<open>logFile\<close> is the content of \<open>events.jsonl\<close>, \<open>None\<close> when the file does not exist.\<close>

definition findRecentToolUseId ::
  "(string \<Rightarrow> json option) \<Rightarrow> json option \<Rightarrow> json option \<Rightarrow> string option \<Rightarrow> json option" where
  "findRecentToolUseId P toolName toolInput logFile =
     (case logFile of
        None \<Rightarrow> Some JNull
      | Some fileContent \<Rightarrow>
          search_intentions P toolName toolInput (rev (recentLines fileContent)))"

subsection \<open>The tool execution span of a PostToolUse hook\<close>

record toolExecutionEvent =
  toolUseId :: "json option"
  toolName :: "json option"
  toolInput :: "json option"
  toolResponse :: "json option"
  ev_sessionId :: "json option"
  startTime :: int
  endTime :: int
  ev_error :: "string option"

text \<open>\<open>typeof x === "string" ? x : JSON.stringify(x)\<close>\<close>

fun stringish :: "json option \<Rightarrow> string option" where
  "stringish None = None"
| "stringish (Some (JStr s)) = Some s"
| "stringish (Some v) = Some (stringify v)"

text \<open>
  A JSON value as a span attribute. The values used here are strings; \<open>null\<close>,
  \<open>undefined\<close>, arrays and objects leave the attribute without a value and are dropped.
\<close>

fun attr_of :: "json option \<Rightarrow> attr option" where
  "attr_of (Some (JStr s)) = Some (AStr s)"
| "attr_of (Some (JNum n)) = Some (AInt n)"
| "attr_of (Some (JBool b)) = Some (ABool b)"
| "attr_of _ = None"

definition present :: "(string \<times> attr option) list \<Rightarrow> (string \<times> attr) list" where
  "present kvs = List.map_filter (\<lambda>(k, v). map_option (\<lambda>a. (k, a)) v) kvs"

text \<open>
  \<open>createToolExecutionSpan\<close> in a process whose tracer has been initialised and is \<open>t\<close>
  (without a tracer the function catches the error and emits nothing). The span is
  started by \<open>startEnhancedToolSpan(toolName, toolInput, null, null)\<close>: without a parent
  span.
\<close>

definition createToolExecutionSpan :: "toolExecutionEvent \<Rightarrow> tracer \<Rightarrow> span \<times> tracer" where
  "createToolExecutionSpan ev t =
     (let r = startEnhancedToolSpan
                (case toolName ev of Some v \<Rightarrow> js_string v | None \<Rightarrow> ''undefined'')
                (if truthy_opt (toolInput ev) then stringish (toolInput ev) else None)
                None None t;
          sp1 = setAttributes
                  (present
                     [(''tool.name'', attr_of (toolName ev)),
                      (''tool.input'', map_option AStr (stringish (toolInput ev))),
                      (''tool.output'', map_option AStr (stringish (toolResponse ev))),
                      (''tool.duration.ms'', Some (AInt (endTime ev - startTime ev))),
                      (''session.id'', attr_of (ev_sessionId ev))])
                  (fst r);
          sp2 = (if truthy_opt (toolUseId ev)
                 then setAttributes (present [(''tool.use_id'', attr_of (toolUseId ev))]) sp1
                 else sp1);
          sp3 = (case ev_error ev of
                   Some e \<Rightarrow> if e \<noteq> [] then recordException e (setStatus ERROR (Some e) sp2)
                             else setStatus OK None sp2
                 | None \<Rightarrow> setStatus OK None sp2)
      in (end_span sp3, snd r))"

text \<open>
  The \<open>close\<close> handler for a captured hook whose stdin carried a PostToolUse event:
  the correlator is asked for the id, the \<open>tool_execution_complete\<close> event is built,
  and the span is created from it.
\<close>

definition tool_execution_event ::
  "(string \<Rightarrow> json option) \<Rightarrow> json \<Rightarrow> string option \<Rightarrow> int \<Rightarrow> int \<Rightarrow> toolExecutionEvent" where
  "tool_execution_event P event logFile start fin =
     \<lparr>toolUseId = findRecentToolUseId P (get_prop event ''tool_name'') (get_prop event ''tool_input'') logFile,
      toolName = get_prop event ''tool_name'',
      toolInput = get_prop event ''tool_input'',
      toolResponse = get_prop event ''tool_response'',
      ev_sessionId = get_prop event ''session_id'',
      startTime = start, endTime = fin, ev_error = None\<rparr>"

definition post_tool_use_span ::
  "(string \<Rightarrow> json option) \<Rightarrow> json \<Rightarrow> string option \<Rightarrow> int \<Rightarrow> int \<Rightarrow> tracer \<Rightarrow> span" where
  "post_tool_use_span P event logFile start fin t =
     fst (createToolExecutionSpan (tool_execution_event P event logFile start fin) t)"

text \<open>
  What the claim about the correlator asks for, in its own words: among the parsed
  lines, most recent first, the first \<open>tool_use_request\<close> that matches.
\<close>

definition line_matches :: "(string \<Rightarrow> json option) \<Rightarrow> json option \<Rightarrow> json option \<Rightarrow> string \<Rightarrow> bool" where
  "line_matches P tool_name tool_input line =
     (case P line of
        None \<Rightarrow> False
      | Some JNull \<Rightarrow> False
      | Some event \<Rightarrow> intention_matches tool_name tool_input event)"

definition line_toolUseId :: "(string \<Rightarrow> json option) \<Rightarrow> string \<Rightarrow> json option" where
  "line_toolUseId P line = (case P line of None \<Rightarrow> None | Some event \<Rightarrow> get_prop event ''toolUseId'')"

subsection \<open>Example inputs for the correlator\<close>

definition intention_tu_1 :: json where
  "intention_tu_1 =
     JObj [(''eventType'', JStr ''tool_use_request''), (''timestamp'', JStr ''t0''),
           (''toolUseId'', JStr ''tu_1''), (''toolName'', JStr ''read_file''),
           (''toolInput'', JObj [(''path'', JStr ''/x''), (''mode'', JStr ''r'')]),
           (''sessionId'', JStr ''unknown'')]"

definition events_log :: string where
  "events_log = stringify intention_tu_1 @ [CHR 0x0A]"

definition post_tool_use_same_order :: json where
  "post_tool_use_same_order =
     JObj [(''session_id'', JStr ''s-1''), (''hook_event_name'', JStr ''PostToolUse''),
           (''tool_name'', JStr ''read_file''),
           (''tool_input'', JObj [(''path'', JStr ''/x''), (''mode'', JStr ''r'')]),
           (''tool_response'', JStr ''contents'')]"

definition post_tool_use_other_order :: json where
  "post_tool_use_other_order =
     JObj [(''session_id'', JStr ''s-1''), (''hook_event_name'', JStr ''PostToolUse''),
           (''tool_name'', JStr ''read_file''),
           (''tool_input'', JObj [(''mode'', JStr ''r''), (''path'', JStr ''/x'')]),
           (''tool_response'', JStr ''contents'')]"

subsection \<open>The trace of one process\<close>

text \<open>
  The state reached by a script is in the trace of the root span \<open>rt\<close>: the root is
  unchanged, every span started carries the root's trace id, and its parent is the root
  or a span started earlier by the same process.
\<close>

definition in_root_trace :: "span \<Rightarrow> span list \<times> tracer \<Rightarrow> bool" where
  "in_root_trace rt st =
     (rootSpan (snd st) = rt
      \<and> (\<forall>s \<in> set (fst st). traceId s = traceId rt
            \<and> (parentSpanId s = Some (spanId rt)
                \<or> (\<exists>p \<in> set (fst st). parentSpanId s = Some (spanId p)))))"

definition host_script :: "tracer_op list" where
  "host_script =
     [StartApiCall ''https://api.anthropic.com/v1/messages'' ''POST'',
      StartHookEvent ''PostToolUse'' (Some ''Read''),
      StartHookExecution ''./lint.sh'' 1 False]"

section \<open>The hook orchestrator (\<open>hooks/orchestrator.cjs\<close>)\<close>

text \<open>
  The model starts after the event has been read from stdin and parsed, the run id has
  been found, the tracer has been attached and the settings files have been read:
  \<open>event\<close> is the event object, \<open>t\<close> the tracer of the orchestrator process, \<open>hooks\<close> the
  commands collected from the settings files in file order. \<open>execSync\<close> enters as the
  parameter \<open>ex\<close>: given the command and the text piped to its stdin it returns the
  command's stdout, or throws with the exit status (when there is one) and a message;
  either way with the milliseconds the call took. A command that is run is recorded in
  \<open>executed\<close>, in order.
\<close>

datatype exec_result = Returned string int | Threw "int option" string int

text \<open>\<open>[...new Set(hooks)]\<close>: the first occurrence of each command, in order.\<close>

definition dedupe :: "string list \<Rightarrow> string list" where
  "dedupe xs = rev (remdups (rev xs))"

record hook_run =
  hookOutputs :: "(string \<times> string) list"
  executed :: "string list"
  executionSpans :: "span list"
  hook_tracer :: tracer

text \<open>
  The module loaded as \<open>tracer\<close> exports no \<open>SpanStatusCode\<close>, so
  \<open>tracer.SpanStatusCode?.OK || 0\<close> is \<open>0\<close> (UNSET) and \<open>tracer.SpanStatusCode?.ERROR || 2\<close>
  is \<open>2\<close> (ERROR).
\<close>

definition exit_status :: "int option \<Rightarrow> int" where
  "exit_status st = (case st of Some n \<Rightarrow> if n = 0 then 1 else n | None \<Rightarrow> 1)"

fun run_hooks ::
  "(string \<Rightarrow> string \<Rightarrow> exec_result) \<Rightarrow> string \<Rightarrow> span \<Rightarrow> string list \<Rightarrow> hook_run \<Rightarrow> hook_run" where
  "run_hooks ex inp hookEventSpan [] st = st"
| "run_hooks ex inp hookEventSpan (hookCmd # rest) st =
     (if str_includes hookCmd ''orchestrator'' then run_hooks ex inp hookEventSpan rest st
      else
        (let r = startHookExecutionSpan hookCmd hookEventSpan False (hook_tracer st);
             execSpan = fst r
         in (case ex hookCmd inp of
               Returned result ms \<Rightarrow>
                 run_hooks ex inp hookEventSpan rest
                   \<lparr>hookOutputs = hookOutputs st @ [(hookCmd, trim result)],
                    executed = executed st @ [hookCmd],
                    executionSpans = executionSpans st @
                      [end_span (setStatus UNSET None
                         (setAttributes
                            [(''hook.exit_code'', AInt 0), (''hook.duration_ms'', AInt ms),
                             (''hook.stdout_length'', AInt (int (length result)))] execSpan))],
                    hook_tracer = snd r\<rparr>
             | Threw st_code message ms \<Rightarrow>
                 run_hooks ex inp hookEventSpan rest
                   \<lparr>hookOutputs = hookOutputs st,
                    executed = executed st @ [hookCmd],
                    executionSpans = executionSpans st @
                      [end_span (setStatus ERROR (Some message)
                         (setAttributes
                            [(''hook.exit_code'', AInt (exit_status st_code)),
                             (''hook.duration_ms'', AInt ms), (''hook.error'', AStr message)]
                            (recordException message execSpan)))],
                    hook_tracer = snd r\<rparr>)))"

text \<open>One step of the first-wins merge of a parsed output into \<open>finalResponse\<close>.\<close>

definition merge_fields :: "(string \<times> json) list \<Rightarrow> json \<Rightarrow> (string \<times> json) list" where
  "merge_fields finalResponse j =
     (let f1 = (if truthy_opt (get_prop j ''stopReason'') \<and> \<not> truthy_opt (map_of finalResponse ''stopReason'')
                then obj_put ''stopReason'' (get_prop j ''stopReason'') finalResponse
                else finalResponse);
          f2 = (if truthy_opt (get_prop j ''decision'') \<and> \<not> truthy_opt (map_of f1 ''decision'')
                then obj_put ''reason'' (get_prop j ''reason'')
                       (obj_put ''decision'' (get_prop j ''decision'') f1)
                else f1)
      in (if get_prop j ''suppressOutput'' \<noteq> None \<and> map_of f2 ''suppressOutput'' = None
          then obj_put ''suppressOutput'' (get_prop j ''suppressOutput'') f2
          else f2))"

text \<open>
  The merge loop; the result is the line printed to stdout. An output that does not
  parse is text and is passed over; so is a parsed value that is falsy. A parsed value
  whose \<open>continue\<close> is \<open>false\<close> is printed at once and ends the handler.
\<close>

fun merge_outputs ::
  "(string \<Rightarrow> json option) \<Rightarrow> (string \<times> json) list \<Rightarrow> (string \<times> string) list \<Rightarrow> string" where
  "merge_outputs P finalResponse [] = stringify (JObj finalResponse)"
| "merge_outputs P finalResponse ((command, out) # rest) =
     (case P out of
        None \<Rightarrow> merge_outputs P finalResponse rest
      | Some j \<Rightarrow>
          if \<not> truthy j then merge_outputs P finalResponse rest
          else if get_prop j ''continue'' = Some (JBool False) then stringify j
          else merge_outputs P (merge_fields finalResponse j) rest)"

record orchestration =
  stdout :: string
  commands_run :: "string list"
  hookEventSpan :: span
  hookExecutionSpans :: "span list"

definition event_span_attributes :: "json \<Rightarrow> string \<Rightarrow> (string \<times> attr) list" where
  "event_span_attributes event cwd =
     [(''session.id'', AStr (str_or (get_prop event ''session_id'') ''unknown'')),
      (''hook.cwd'', AStr (str_or (get_prop event ''cwd'') cwd))]
     @ (case get_prop event ''prompt'' of
          Some (JStr p) \<Rightarrow> if p \<noteq> [] then [(''hook.prompt'', AStr (take 100 p @ ''...''))] else []
        | _ \<Rightarrow> [])"

definition orchestrate ::
  "(string \<Rightarrow> json option) \<Rightarrow> (string \<Rightarrow> string \<Rightarrow> exec_result) \<Rightarrow> string \<Rightarrow> json \<Rightarrow> string list
     \<Rightarrow> tracer \<Rightarrow> orchestration" where
  "orchestrate P ex cwd event hooks t =
     (let r = startHookEventSpan
                (case get_prop event ''hook_event_name'' of Some v \<Rightarrow> js_string v | None \<Rightarrow> ''undefined'')
                (if truthy_opt (get_prop event ''tool_name'')
                 then map_option js_string (get_prop event ''tool_name'') else None)
                t;
          evSpan = setAttributes (event_span_attributes event cwd) (fst r);
          allHooks = dedupe hooks;
          run = run_hooks ex (stringify event) evSpan allHooks
                  \<lparr>hookOutputs = [], executed = [], executionSpans = [], hook_tracer = snd r\<rparr>
      in \<lparr>stdout = merge_outputs P [(''continue'', JBool True)] (hookOutputs run),
          commands_run = executed run,
          hookEventSpan = end_span (setStatus UNSET None evSpan),
          hookExecutionSpans = executionSpans run\<rparr>)"

text \<open>
  The blocking contract in the words of the claim: a command's output blocks when it
  parses to an object whose \<open>continue\<close> is \<open>false\<close>; the first such object, in the order
  of execution, is the one printed.
\<close>

definition block_of :: "(string \<Rightarrow> json option) \<Rightarrow> string \<times> string \<Rightarrow> json option" where
  "block_of P co =
     (case P (snd co) of
        None \<Rightarrow> None
      | Some j \<Rightarrow> if truthy j \<and> get_prop j ''continue'' = Some (JBool False) then Some j else None)"

definition first_block :: "(string \<Rightarrow> json option) \<Rightarrow> (string \<times> string) list \<Rightarrow> json option" where
  "first_block P outs = (case List.map_filter (block_of P) outs of [] \<Rightarrow> None | j # _ \<Rightarrow> Some j)"

text \<open>The parsed, truthy outputs, which the merge folds into the composite response.\<close>

definition mergeable :: "(string \<Rightarrow> json option) \<Rightarrow> (string \<times> string) list \<Rightarrow> json list" where
  "mergeable P outs =
     List.map_filter
       (\<lambda>co. case P (snd co) of None \<Rightarrow> None | Some j \<Rightarrow> if truthy j then Some j else None) outs"

text \<open>The trimmed outputs of the commands that returned, in order.\<close>

definition returned_outputs ::
  "(string \<Rightarrow> string \<Rightarrow> exec_result) \<Rightarrow> string \<Rightarrow> string list \<Rightarrow> (string \<times> string) list" where
  "returned_outputs ex inp cmds =
     List.map_filter
       (\<lambda>c. case ex c inp of Returned result ms \<Rightarrow> Some (c, trim result) | Threw st m ms \<Rightarrow> None) cmds"

text \<open>The commands of a run: the distinct discovered commands that are not the
  orchestrator itself.\<close>

definition user_hooks :: "string list \<Rightarrow> string list" where
  "user_hooks hooks = filter (\<lambda>c. \<not> str_includes c ''orchestrator'') (dedupe hooks)"

subsection \<open>Example: two hooks, the first one blocks\<close>

definition stop_event :: json where
  "stop_event =
     JObj [(''session_id'', JStr ''s-1''), (''hook_event_name'', JStr ''Stop'')]"

definition blocking_reply :: json where
  "blocking_reply = JObj [(''continue'', JBool False), (''stopReason'', JStr ''policy'')]"

definition two_hooks :: "string \<Rightarrow> string \<Rightarrow> exec_result" where
  "two_hooks command inp =
     (if command = ''./policy.sh'' then Returned ''{\"continue\":false,\"stopReason\":\"policy\"}'' 7
      else Returned ''formatted'' 3)"

section \<open>The OTLP writer (\<open>OTLPJsonFileExporter.export\<close>)\<close>

text \<open>
  The file system is a map from paths to contents together with the set of paths that
  can be written (the directory exists and permits it). \<open>appendFileSync\<close> creates a
  missing file and throws on a path that cannot be written.
\<close>

record filesystem =
  files :: "string \<Rightarrow> string option"
  writable :: "string \<Rightarrow> bool"

datatype io_error = IOError string

definition appendFileSync :: "string \<Rightarrow> string \<Rightarrow> filesystem \<Rightarrow> io_error + filesystem" where
  "appendFileSync path data fs =
     (if writable fs path
      then Inr (fs\<lparr>files := (files fs)(path \<mapsto> (case files fs path of None \<Rightarrow> data | Some old \<Rightarrow> old @ data))\<rparr>)
      else Inl (IOError path))"

datatype ExportResultCode = SUCCESS | FAILED

record exporter =
  outputPath :: string
  exp_sessionId :: string
  exp_parentSessionId :: "string option"

text \<open>The session attributes written into every span of the batch.\<close>

definition stamp :: "exporter \<Rightarrow> span \<Rightarrow> span" where
  "stamp e sp =
     (let sp1 = sp\<lparr>attributes := obj_set ''session.id'' (AStr (exp_sessionId e)) (attributes sp)\<rparr>
      in (case exp_parentSessionId e of
            Some p \<Rightarrow>
              if p \<noteq> [] then sp1\<lparr>attributes := obj_set ''parent.session.id'' (AStr p) (attributes sp1)\<rparr>
              else sp1
          | None \<Rightarrow> sp1))"

text \<open>
  \<open>export(spans, resultCallback)\<close>. \<open>JsonTraceSerializer.serializeRequest\<close> is the
  parameter \<open>serializeRequest\<close>: it returns the OTLP JSON text of the whole batch or
  throws (\<open>None\<close>). The result has the code handed to \<open>resultCallback\<close>, the file system
  afterwards, and the messages written by \<open>console.error\<close>.
\<close>

record export_outcome =
  result_code :: ExportResultCode
  fs_after :: filesystem
  errors_logged :: "string list"

definition export ::
  "(span list \<Rightarrow> string option) \<Rightarrow> exporter \<Rightarrow> span list \<Rightarrow> filesystem \<Rightarrow> export_outcome" where
  "export serializeRequest e spans fs =
     (let spansWithSession = map (stamp e) spans
      in (case serializeRequest spansWithSession of
            None \<Rightarrow>
              \<lparr>result_code = SUCCESS, fs_after = fs,
               errors_logged = [''OTLP Exporter: Error writing spans:'']\<rparr>
          | Some otlpJson \<Rightarrow>
              (case appendFileSync (outputPath e) (otlpJson @ [CHR 0x0A]) fs of
                 Inl err \<Rightarrow>
                   \<lparr>result_code = SUCCESS, fs_after = fs,
                    errors_logged = [''OTLP Exporter: Error writing spans:'']\<rparr>
               | Inr fs' \<Rightarrow> \<lparr>result_code = SUCCESS, fs_after = fs', errors_logged = []\<rparr>)))"

subsection \<open>Example inputs for the writer\<close>

text \<open>
  Two stand-ins for the serializer: one writes the names of the spans and throws on a
  batch that holds a span without a name, the other is used where its result does not
  matter.
\<close>

definition names_serializer :: "span list \<Rightarrow> string option" where
  "names_serializer spans =
     (if [] \<in> set (map name spans) then None else Some (stringify (JArr (map (\<lambda>s. JStr (name s)) spans))))"

definition run_exporter :: exporter where
  "run_exporter =
     \<lparr>outputPath = ''/logs/run-1/trace.otlp.jsonl'', exp_sessionId = ''s-1'',
      exp_parentSessionId = None\<rparr>"

definition readonly_fs :: filesystem where
  "readonly_fs = \<lparr>files = Map.empty, writable = (\<lambda>p. False)\<rparr>"

definition empty_fs :: filesystem where
  "empty_fs = \<lparr>files = Map.empty, writable = (\<lambda>p. True)\<rparr>"

definition unnamed_span :: span where
  "unnamed_span = example_span\<lparr>name := []\<rparr>"

section \<open>The report materializer (\<open>OTLPHTMLGenerator.generateHTML\<close>)\<close>

subsection \<open>\<open>String.prototype.replace\<close>, \<open>split\<close>, escaping\<close>

text \<open>The first occurrence of a pattern: the text before it and the text after it.\<close>

fun split_at :: "string \<Rightarrow> string \<Rightarrow> (string \<times> string) option" where
  "split_at p [] = (if p = [] then Some ([], []) else None)"
| "split_at p (c # cs) =
     (if startsWith (c # cs) p then Some ([], drop (length p) (c # cs))
      else map_option (\<lambda>(b, a). (c # b, a)) (split_at p cs))"

text \<open>
  The replacement text of \<open>replace\<close> with a string replacement: \<open>$$\<close> is a dollar,
  \<open>$&\<close> the match, \<open>$`\<close> the text before the match and \<open>$'\<close> the text after it. There
  are no capture groups, so every other \<open>$\<close> stands for itself.
\<close>

fun substitute :: "string \<Rightarrow> string \<Rightarrow> string \<Rightarrow> string \<Rightarrow> string" where
  "substitute m b a [] = []"
| "substitute m b a [c] = [c]"
| "substitute m b a (c # d # r) =
     (if c = CHR ''$'' then
        (if d = CHR ''$'' then CHR ''$'' # substitute m b a r
         else if d = CHR ''&'' then m @ substitute m b a r
         else if d = CHR 0x60 then b @ substitute m b a r
         else if d = CHR 0x27 then a @ substitute m b a r
         else c # substitute m b a (d # r))
      else c # substitute m b a (d # r))"

text \<open>\<open>s.replace(p, r)\<close> for a string pattern: the first occurrence only.\<close>

definition replace_first :: "string \<Rightarrow> string \<Rightarrow> string \<Rightarrow> string" where
  "replace_first p r s =
     (case split_at p s of None \<Rightarrow> s | Some (b, a) \<Rightarrow> b @ substitute p b a r @ a)"

text \<open>
  \<open>s.replace(/p/g, r)\<close> for a literal, non-empty pattern: every occurrence from left
  to right; \<open>seen\<close> is the text of the subject before \<open>s\<close>.
\<close>

function replace_all_from :: "string \<Rightarrow> string \<Rightarrow> string \<Rightarrow> string \<Rightarrow> string" where
  "replace_all_from p r seen s =
     (if p = [] then s
      else (case split_at p s of
              None \<Rightarrow> s
            | Some (b, a) \<Rightarrow>
                b @ substitute p (seen @ b) a r @ replace_all_from p r (seen @ b @ p) a))"
  by pat_completeness auto
termination
proof (relation "measure (\<lambda>(p, r, seen, s). length s)")
  show "wf (measure (\<lambda>(p, r, seen, s). length s))"
    by simp
next
  fix p r seen s :: string and x2 :: "string \<times> string" and b a :: string
  assume p: "p \<noteq> []" and s: "split_at p s = Some x2" and x: "(b, a) = x2"
  have "split_at p u = Some (v, w) \<Longrightarrow> length w < length u" for u v w
    using p by (induction u arbitrary: v w) (auto split: if_splits)
  with s x have "length a < length s"
    by metis
  then show "((p, r, seen @ b @ p, a), p, r, seen, s) \<in> measure (\<lambda>(p, r, seen, s). length s)"
    by simp
qed

declare replace_all_from.simps [simp del]

definition replace_all :: "string \<Rightarrow> string \<Rightarrow> string \<Rightarrow> string" where
  "replace_all p r s = replace_all_from p r [] s"

definition escapeHtml :: "string \<Rightarrow> string" where
  "escapeHtml text =
     concat (map (\<lambda>c. if c = CHR ''&'' then ''&amp;''
                       else if c = CHR ''<'' then ''&lt;''
                       else if c = CHR ''>'' then ''&gt;''
                       else if c = CHR 0x22 then ''&quot;''
                       else if c = CHR 0x27 then ''&#39;''
                       else [c]) text)"

text \<open>
  \<open>prepareDataForInjection\<close>: the JSON text with \<open><\<close>, \<open>>\<close> and \<open>&\<close> written as
  six-character Unicode escapes. The separators U+2028 and U+2029 are not code units
  below 256 and do not occur in the strings of this model.
\<close>

definition prepareDataForInjection :: "json \<Rightarrow> string" where
  "prepareDataForInjection data =
     concat (map (\<lambda>c. if c = CHR ''<'' then [CHR 0x5C] @ ''u003c''
                       else if c = CHR ''>'' then [CHR 0x5C] @ ''u003e''
                       else if c = CHR ''&'' then [CHR 0x5C] @ ''u0026''
                       else [c]) (stringify data))"

subsection \<open>Reading the trace\<close>

datatype gen_error =
    ParseError
  | BundleNotFound
  | TemplateNotFound
  | MarkerError
  | WriteError

text \<open>
  One line of the JSONL file inside the \<open>try\<close>: the resource spans it contributes, or
  \<open>None\<close> when the body throws and the line is skipped with a warning: the line does not
  parse, it parses to \<open>null\<close>, or its truthy \<open>resourceSpans\<close> cannot be spread. A string
  spreads into its characters.
\<close>

definition line_resourceSpans :: "(string \<Rightarrow> json option) \<Rightarrow> string \<Rightarrow> json list option" where
  "line_resourceSpans P line =
     (case P line of
        None \<Rightarrow> None
      | Some JNull \<Rightarrow> None
      | Some lineData \<Rightarrow>
          (case get_prop lineData ''resourceSpans'' of
             None \<Rightarrow> Some []
           | Some rs \<Rightarrow>
               if \<not> truthy rs then Some []
               else (case rs of
                       JArr xs \<Rightarrow> Some xs
                     | JStr s \<Rightarrow> Some (map (\<lambda>c. JStr [c]) s)
                     | _ \<Rightarrow> None)))"

definition jsonl_step ::
  "(string \<Rightarrow> json option) \<Rightarrow> json list \<times> string list \<Rightarrow> string \<Rightarrow> json list \<times> string list" where
  "jsonl_step P acc line =
     (case line_resourceSpans P line of
        None \<Rightarrow> (fst acc, snd acc @ [''Skipping invalid JSONL line:''])
      | Some xs \<Rightarrow> (fst acc @ xs, snd acc))"

text \<open>
  The trace data and the warnings written by \<open>console.warn\<close> (to standard error).
  \<open>content\<close> is the content of the OTLP file, \<open>None\<close> when the file does not exist.
\<close>

definition read_trace ::
  "(string \<Rightarrow> json option) \<Rightarrow> string \<Rightarrow> string option \<Rightarrow> gen_error + (json \<times> string list)" where
  "read_trace P otlpFile content =
     (case content of
        None \<Rightarrow> Inr (JObj [(''resourceSpans'', JArr [])], [])
      | Some otlpContent \<Rightarrow>
          if trim otlpContent = [] then Inr (JObj [(''resourceSpans'', JArr [])], [])
          else if endsWith otlpFile ''.jsonl''
          then (let r = foldl (jsonl_step P) ([], []) (nonblank_lines otlpContent)
                in Inr (JObj [(''resourceSpans'', JArr (fst r))], snd r))
          else (case P otlpContent of
                  None \<Rightarrow> Inl ParseError
                | Some traceData \<Rightarrow> Inr (traceData, [])))"

subsection \<open>Template, bundle and the page\<close>

text \<open>
  The generator after its constructor: the two paths it settled on, and the text that
  \<open>getDefaultOTLPTemplate\<close> returns (a fixed page that holds each marker once).
\<close>

record generator =
  templatePath :: string
  bundlePath :: string
  defaultTemplate :: string

definition loadTemplateFiles :: "generator \<Rightarrow> filesystem \<Rightarrow> gen_error + (string \<times> string)" where
  "loadTemplateFiles g fs =
     (case files fs (bundlePath g) of
        None \<Rightarrow> Inl BundleNotFound
      | Some jsBundle \<Rightarrow>
          (case files fs (templatePath g) of
             None \<Rightarrow> Inl TemplateNotFound
           | Some templateContent \<Rightarrow>
               if str_includes templateContent ''__OTLP_BUNDLE_REPLACEMENT__''
                  \<and> str_includes templateContent ''__OTLP_DATA_REPLACEMENT__''
               then Inr (templateContent, jsBundle)
               else Inr (defaultTemplate g, jsBundle)))"

text \<open>\<open>new Date().toISOString().replace("T", " ").slice(0, -5)\<close>, from the ISO text of the
  clock.\<close>

definition timestamp_of :: "string \<Rightarrow> string" where
  "timestamp_of nowISO =
     (let s = replace_first ''T'' '' '' nowISO in take (length s - 5) s)"

text \<open>
  The page for given trace data. \<open>run_id\<close> is \<open>path.basename(path.dirname(otlpFile))\<close>,
  \<open>title\<close> the title option.
\<close>

definition render_page ::
  "string \<Rightarrow> string \<Rightarrow> json \<Rightarrow> string \<Rightarrow> string \<Rightarrow> string option \<Rightarrow> gen_error + string" where
  "render_page htmlTemplate jsBundle traceData nowISO run_id title =
     (let htmlData = JObj [(''traceData'', traceData), (''parsedSpans'', JNull),
                           (''timestamp'', JStr (timestamp_of nowISO)), (''runId'', JStr run_id)];
          dataJsonEscaped = prepareDataForInjection htmlData
      in (case split_at ''__OTLP_BUNDLE_REPLACEMENT__'' htmlTemplate of
            None \<Rightarrow> Inl MarkerError
          | Some (before, after) \<Rightarrow>
              if split_at ''__OTLP_BUNDLE_REPLACEMENT__'' after \<noteq> None then Inl MarkerError
              else Inr (replace_all ''__OTLP_TITLE_REPLACEMENT__''
                          (escapeHtml (case title of
                                         Some t \<Rightarrow> if t \<noteq> [] then t else ''Trace '' @ run_id
                                       | None \<Rightarrow> ''Trace '' @ run_id))
                          (replace_first ''__OTLP_DATA_REPLACEMENT__'' dataJsonEscaped
                             (before @ jsBundle @ after)))))"

definition writeFileSync :: "string \<Rightarrow> string \<Rightarrow> filesystem \<Rightarrow> gen_error + filesystem" where
  "writeFileSync path data fs =
     (if writable fs path then Inr (fs\<lparr>files := (files fs)(path \<mapsto> data)\<rparr>) else Inl WriteError)"

text \<open>
  \<open>generateHTML(otlpFile, outputFile, {title})\<close>: the file system afterwards and the
  warnings, or the error thrown.
\<close>

definition generateHTML ::
  "(string \<Rightarrow> json option) \<Rightarrow> generator \<Rightarrow> string \<Rightarrow> string \<Rightarrow> string \<Rightarrow> string \<Rightarrow> string option
     \<Rightarrow> filesystem \<Rightarrow> gen_error + (filesystem \<times> string list)" where
  "generateHTML P g nowISO run_id otlpFile outputFile title fs =
     (case read_trace P otlpFile (files fs otlpFile) of
        Inl e \<Rightarrow> Inl e
      | Inr (traceData, warnings) \<Rightarrow>
          (case loadTemplateFiles g fs of
             Inl e \<Rightarrow> Inl e
           | Inr (htmlTemplate, jsBundle) \<Rightarrow>
               (case render_page htmlTemplate jsBundle traceData nowISO run_id title of
                  Inl e \<Rightarrow> Inl e
                | Inr htmlContent \<Rightarrow>
                    (case writeFileSync outputFile htmlContent fs of
                       Inl e \<Rightarrow> Inl e
                     | Inr fs' \<Rightarrow> Inr (fs', warnings)))))"

text \<open>The content of a path after a run, \<open>None\<close> when the run threw or the path is missing.\<close>

definition written :: "gen_error + (filesystem \<times> string list) \<Rightarrow> string \<Rightarrow> string option" where
  "written r path = (case r of Inl e \<Rightarrow> None | Inr (fs, w) \<Rightarrow> files fs path)"

definition warnings_of :: "gen_error + (filesystem \<times> string list) \<Rightarrow> string list" where
  "warnings_of r = (case r of Inl e \<Rightarrow> [] | Inr (fs, w) \<Rightarrow> w)"

text \<open>The file system a run leaves behind (the one it started from when it threw).\<close>

definition fs_left :: "filesystem \<Rightarrow> gen_error + (filesystem \<times> string list) \<Rightarrow> filesystem" where
  "fs_left fs r = (case r of Inl e \<Rightarrow> fs | Inr (fs', w) \<Rightarrow> fs')"

text \<open>
  The reading of a JSONL trace in the words of the claim: the resource spans of the
  lines that are read, in order, and the lines that are skipped.
\<close>

definition kept_spans :: "(string \<Rightarrow> json option) \<Rightarrow> string list \<Rightarrow> json list" where
  "kept_spans P lines = concat (List.map_filter (line_resourceSpans P) lines)"

definition skipped_lines :: "(string \<Rightarrow> json option) \<Rightarrow> string list \<Rightarrow> string list" where
  "skipped_lines P lines = filter (\<lambda>line. line_resourceSpans P line = None) lines"

subsection \<open>The viewer's check for an empty trace (\<open>OTLPParser\<close>, \<open>initializeOTLPReport\<close>)\<close>

text \<open>
  A span of the viewer with its children; the optional metric and content fields are
  left out.
\<close>

datatype D3Span =
  D3Span (d3_id: string) (d3_name: string) (d3_type: string) (d3_startTime: rat) (d3_endTime: rat)
    (d3_duration: rat) (d3_depth: nat) (d3_attributes: "(string \<times> attr) list") (d3_status: string)
    (d3_children: "D3Span list")

definition createEmptyRoot :: D3Span where
  "createEmptyRoot = D3Span ''root'' ''Claude Code Session'' ''other'' 0 0 0 0 [] ''unknown'' []"

text \<open>The root that \<open>parse\<close> returns: \<open>this.rootSpan || this.createEmptyRoot()\<close>.\<close>

definition parse_root :: "D3Span option \<Rightarrow> D3Span" where
  "parse_root parsed_root = (case parsed_root of Some r \<Rightarrow> r | None \<Rightarrow> createEmptyRoot)"

fun flattenSpans :: "D3Span \<Rightarrow> D3Span list" where
  "flattenSpans (D3Span i n ty s e d dp attrs st cs) =
     D3Span i n ty s e d dp attrs st cs # concat (map flattenSpans cs)"

text \<open>
  The step of \<open>initializeOTLPReport\<close> that validates the parsed spans: an error page
  for an empty list and for more than 50000 spans, the viewer otherwise.
\<close>

datatype view = ShowError string | Render "D3Span list"

definition validate_spans :: "D3Span \<Rightarrow> view" where
  "validate_spans root_span =
     (let parsedSpans = flattenSpans root_span
      in if length parsedSpans = 0
         then ShowError ''No trace spans found - the trace data appears to be empty''
         else if length parsedSpans > 50000
         then ShowError (''Too many spans ('' @ show_nat (length parsedSpans)
                @ '') may cause browser performance issues. Consider filtering the trace data.'')
         else Render parsedSpans)"

subsection \<open>Example inputs for the materializer\<close>

definition page_generator :: generator where
  "page_generator =
     \<lparr>templatePath = ''/lib/frontend/template.html'',
      bundlePath = ''/lib/frontend/dist/otlp.global.js'',
      defaultTemplate =
        ''<title>__OTLP_TITLE_REPLACEMENT__</title><script>window.otlpData = __OTLP_DATA_REPLACEMENT__;</script><script>__OTLP_BUNDLE_REPLACEMENT__</script>''\<rparr>"

definition otlp_line_a :: json where
  "otlp_line_a = JObj [(''resourceSpans'', JArr [JObj [(''scopeSpans'', JArr [])], JObj [(''resource'', JNull)]])]"

definition otlp_line_b :: json where
  "otlp_line_b = JObj [(''resourceSpans'', JArr [JObj [(''scopeSpans'', JArr [JNum 1])]])]"

definition trace_with_bad_line :: string where
  "trace_with_bad_line =
     stringify otlp_line_a @ [CHR 0x0A] @ ''{\"resourceSpans\": [tru'' @ [CHR 0x0A]
     @ stringify otlp_line_b @ [CHR 0x0A]"

definition install_files :: "(string \<times> string) list" where
  "install_files =
     [(''/lib/frontend/template.html'',
       ''<h1>__OTLP_TITLE_REPLACEMENT__</h1><script>window.otlpData = __OTLP_DATA_REPLACEMENT__;</script><script>__OTLP_BUNDLE_REPLACEMENT__</script>''),
      (''/lib/frontend/dist/otlp.global.js'', ''initializeOTLPReport();'')]"

text \<open>A run directory without a trace file, and one whose trace has a malformed line.\<close>

definition fs_without_trace :: filesystem where
  "fs_without_trace = \<lparr>files = map_of install_files, writable = (\<lambda>p. True)\<rparr>"

definition fs_with_trace :: filesystem where
  "fs_with_trace =
     \<lparr>files = map_of ((''/logs/run-1/trace.otlp.jsonl'', trace_with_bad_line) # install_files),
      writable = (\<lambda>p. True)\<rparr>"

definition fs_with_blank_trace :: filesystem where
  "fs_with_blank_trace =
     \<lparr>files = map_of ((''/logs/run-1/trace.otlp.jsonl'', [CHR 0x0A]) # install_files),
      writable = (\<lambda>p. True)\<rparr>"

definition trace_path :: string where
  "trace_path = ''/logs/run-1/trace.otlp.jsonl''"

definition report_path :: string where
  "report_path = ''/logs/run-1/report.html''"

text \<open>Three readings of the clock: two within one second, the third a second later.\<close>

definition clock_a :: string where
  "clock_a = ''2026-11-02T19:39:00.123Z''"

definition clock_b :: string where
  "clock_b = ''2026-11-02T19:39:00.987Z''"

definition clock_c :: string where
  "clock_c = ''2026-11-02T19:39:01.456Z''"

definition otlp_parser :: "string \<Rightarrow> json option" where
  "otlp_parser = parser_for [otlp_line_a, otlp_line_b]"

text \<open>A first run of the materializer on the trace with the malformed line.\<close>

definition first_run :: "gen_error + (filesystem \<times> string list)" where
  "first_run =
     generateHTML otlp_parser page_generator clock_a ''run-1'' trace_path report_path None fs_with_trace"

definition empty_report :: string where
  "empty_report =
     ''<h1>Trace run-1</h1><script>window.otlpData = {\"traceData\":{\"resourceSpans\":[]},\"parsedSpans\":null,\"timestamp\":\"2026-11-02 19:39:00\",\"runId\":\"run-1\"};</script><script>initializeOTLPReport();</script>''"

section \<open>The spawn interceptor (\<open>interceptedSpawn\<close> in \<open>src/spawn-preload.cjs\<close>)\<close>

text \<open>
  \<open>interceptedSpawn\<close> replaces \<open>child_process.spawn(command[, args][, options])\<close>. Its
  second positional argument is, as for the primitive, an array of strings, an options
  object (the form \<open>spawn(command, options)\<close>), or left out. The primitive itself is the
  parameter \<open>originalSpawn\<close>, taken after its own normalisation of the arguments; the
  child process it returns is a value of the type \<open>'c\<close>.
\<close>

record spawn_options =
  opt_env :: "(string \<times> string) list option"
  opt_shell :: "json option"
  opt_cwd :: "string option"

datatype spawn_args = ArgsOmitted | ArgsArray "string list" | ArgsOptions spawn_options

datatype js_error = TypeError string

definition default_options :: spawn_options where
  "default_options = \<lparr>opt_env = None, opt_shell = None, opt_cwd = None\<rparr>"

text \<open>
  The primitive with the overloads of its documentation: an object in the place of
  \<open>args\<close> is the options, and \<open>args\<close> is then empty.
\<close>

definition spawn_primitive ::
  "(string \<Rightarrow> string list \<Rightarrow> spawn_options \<Rightarrow> 'c) \<Rightarrow> string \<Rightarrow> spawn_args \<Rightarrow> spawn_options option \<Rightarrow> 'c" where
  "spawn_primitive originalSpawn command args options =
     (case args of
        ArgsOptions ob \<Rightarrow> originalSpawn command [] ob
      | ArgsArray xs \<Rightarrow>
          originalSpawn command xs (case options of Some ob \<Rightarrow> ob | None \<Rightarrow> default_options)
      | ArgsOmitted \<Rightarrow>
          originalSpawn command [] (case options of Some ob \<Rightarrow> ob | None \<Rightarrow> default_options))"

definition isClaudeHook ::
  "(string \<times> string) list \<Rightarrow> string \<Rightarrow> string list \<Rightarrow> spawn_options \<Rightarrow> bool" where
  "isClaudeHook process_env command args options =
     (let env = (case opt_env options of Some e \<Rightarrow> e | None \<Rightarrow> process_env);
          hasClaudeProjectDir =
            (case map_of env ''CLAUDE_PROJECT_DIR'' of Some d \<Rightarrow> d \<noteq> [] | None \<Rightarrow> False);
          isShellMode = (opt_shell options = Some (JBool True));
          isOfficialHook = (hasClaudeProjectDir \<and> isShellMode);
          commandStr = join '' '' (command # args);
          isOrchestratorHook =
            (str_includes commandStr ''cc-profile'' \<or> str_includes commandStr ''INTERCEPTOR TEST'')
      in isOfficialHook \<or> isOrchestratorHook)"

text \<open>What the interceptor accumulates for a captured child.\<close>

record capture =
  cap_command :: string
  cap_args :: "string list"
  stdinData :: string
  cap_stdout :: string
  cap_stderr :: string
  hookEventData :: "json option"

text \<open>
  \<open>interceptedSpawn(command, args = [], options = {})\<close>. The defaults apply to arguments
  left out. \<open>args.some(...)\<close> is evaluated first; on an options object, which has no
  method \<open>some\<close>, it throws a \<open>TypeError\<close>. The result is the child returned by
  \<open>originalSpawn\<close>, with the capture state when the spawn is taken for a hook.
\<close>

definition interceptedSpawn ::
  "(string \<Rightarrow> string list \<Rightarrow> spawn_options \<Rightarrow> 'c) \<Rightarrow> (string \<times> string) list \<Rightarrow> string
     \<Rightarrow> spawn_args \<Rightarrow> spawn_options option \<Rightarrow> js_error + ('c \<times> capture option)" where
  "interceptedSpawn originalSpawn process_env command args options =
     (let opts = (case options of Some ob \<Rightarrow> ob | None \<Rightarrow> default_options)
      in (case args of
            ArgsOptions ob \<Rightarrow> Inl (TypeError ''args.some is not a function'')
          | ArgsOmitted \<Rightarrow>
              if isClaudeHook process_env command [] opts
              then Inr (originalSpawn command [] opts,
                        Some \<lparr>cap_command = command, cap_args = [], stdinData = [], cap_stdout = [],
                              cap_stderr = [], hookEventData = None\<rparr>)
              else Inr (originalSpawn command [] opts, None)
          | ArgsArray xs \<Rightarrow>
              if isClaudeHook process_env command xs opts
                 \<or> list_ex (\<lambda>arg. str_includes arg ''INTERCEPTOR TEST'') xs
              then Inr (originalSpawn command xs opts,
                        Some \<lparr>cap_command = command, cap_args = xs, stdinData = [], cap_stdout = [],
                              cap_stderr = [], hookEventData = None\<rparr>)
              else Inr (originalSpawn command xs opts, None)))"

text \<open>
  The wrapper installed over \<open>child.stdin.write\<close>: the capture state afterwards, and the
  chunk handed to the original \<open>write\<close>.
\<close>

definition stdin_write ::
  "(string \<Rightarrow> json option) \<Rightarrow> capture \<Rightarrow> string \<Rightarrow> capture \<times> string" where
  "stdin_write P cap chunk =
     (if chunk \<noteq> []
      then (let sd = stdinData cap @ chunk;
                h = (if trim sd \<noteq> []
                     then (case P (trim sd) of
                             None \<Rightarrow> None
                           | Some JNull \<Rightarrow> None
                           | Some ev \<Rightarrow>
                               if truthy_opt (get_prop ev ''session_id'')
                                  \<and> truthy_opt (get_prop ev ''hook_event_name'')
                               then Some ev else None)
                     else None)
            in (cap\<lparr>stdinData := sd,
                    hookEventData := (case h of Some ev \<Rightarrow> Some ev | None \<Rightarrow> hookEventData cap)\<rparr>,
                chunk))
      else (cap, chunk))"

definition stdout_data :: "capture \<Rightarrow> string \<Rightarrow> capture" where
  "stdout_data cap data = cap\<lparr>cap_stdout := cap_stdout cap @ data\<rparr>"

definition stderr_data :: "capture \<Rightarrow> string \<Rightarrow> capture" where
  "stderr_data cap data = cap\<lparr>cap_stderr := cap_stderr cap @ data\<rparr>"

text \<open>The \<open>close\<close> handler's test for the tool execution record.\<close>

definition is_post_tool_use :: "capture \<Rightarrow> bool" where
  "is_post_tool_use cap =
     (case hookEventData cap of
        Some ev \<Rightarrow> get_prop ev ''hook_event_name'' = Some (JStr ''PostToolUse'')
      | None \<Rightarrow> False)"

subsection \<open>Example: \<open>spawn("ls", {cwd: "/tmp"})\<close>\<close>

definition ls_options :: spawn_options where
  "ls_options = \<lparr>opt_env = None, opt_shell = None, opt_cwd = Some ''/tmp''\<rparr>"

text \<open>A stand-in for the primitive: the child is the normalised triple it was given.\<close>

definition echo_spawn :: "string \<Rightarrow> string list \<Rightarrow> spawn_options \<Rightarrow> string \<times> string list \<times> spawn_options" where
  "echo_spawn command args options = (command, args, options)"

section \<open>Properties of the fetch interceptor\<close>

subsection \<open>Objects and attributes\<close>

lemma map_of_obj_set:
  "map_of (obj_set k v kvs) k' = (if k' = k then Some v else map_of kvs k')"
  by (induction kvs) auto

lemma map_of_obj_put:
  "map_of (obj_put k v kvs) k' = (if k' = k then v else map_of kvs k')"
proof (cases v)
  case None
  have "map_of (filter (\<lambda>(a, _). a \<noteq> k) kvs) k' = (if k' = k then None else map_of kvs k')"
    by (induction kvs) auto
  with None show ?thesis by (simp add: obj_put_def)
next
  case (Some x)
  then show ?thesis by (simp add: obj_put_def map_of_obj_set)
qed

subsection \<open>The merge of two usage objects, and the loop over the stream\<close>

lemma get_prop_mergedUsage:
  assumes "k \<in> merged_keys"
  shows "get_prop (mergedUsage cur new) k = coalesce (get_prop new k) (get_prop cur k)"
  using assms by (auto simp: merged_keys_def mergedUsage_def map_of_obj_put)

lemma merge_usage_skip: "\<not> has_usage data \<Longrightarrow> merge_usage rd data = rd"
  by (auto simp: merge_usage_def has_usage_def split: option.splits)

lemma merge_usage_first: "has_usage data \<Longrightarrow> merge_usage None data = Some data"
  by (cases "get_prop data ''usage''") (auto simp: merge_usage_def has_usage_def)

lemma merge_usage_has_usage:
  assumes "has_usage data" "has_usage r"
  shows "\<exists>r'. merge_usage (Some r) data = Some r' \<and> has_usage r'"
  using assms
  by (auto simp: merge_usage_def has_usage_def map_of_obj_set mergedUsage_def split: option.splits)

lemma usage_field_merge:
  assumes "has_usage data" "has_usage r" "k \<in> merged_keys"
  shows "usage_field k (merge_usage (Some r) data)
         = coalesce (usage_field k (Some data)) (usage_field k (Some r))"
  using assms
  by (auto simp: merge_usage_def has_usage_def usage_field_def map_of_obj_set
        get_prop_mergedUsage split: option.splits)

lemma fold_merge_usage:
  assumes "\<forall>d \<in> set es. has_usage d" "has_usage r" "k \<in> merged_keys"
  shows "usage_field k (foldl merge_usage (Some r) es)
         = foldl (\<lambda>cur new. coalesce new cur) (usage_field k (Some r)) (map (\<lambda>d. usage_field k (Some d)) es)"
  using assms
proof (induction es arbitrary: r)
  case Nil
  then show ?case by simp
next
  case (Cons d es)
  from Cons.prems obtain r' where r': "merge_usage (Some r) d = Some r'" "has_usage r'"
    using merge_usage_has_usage by (metis list.set_intros(1))
  have "usage_field k (Some r') = coalesce (usage_field k (Some d)) (usage_field k (Some r))"
    using usage_field_merge [of d r k] Cons.prems r' by simp
  with Cons r' show ?case by simp
qed

lemma fold_merge_usage_filter:
  "foldl merge_usage rd ds = foldl merge_usage rd (filter has_usage ds)"
  by (induction ds arbitrary: rd) (auto simp: merge_usage_skip)

lemma fold_sse_step:
  "fst (foldl (sse_step P) acc ls) = foldl merge_usage (fst acc) (List.map_filter (sse_data P) ls)"
  by (induction ls arbitrary: acc) (auto simp: sse_step_def List.map_filter_simps split: option.splits)

lemma sse_usage_general:
  assumes "k \<in> merged_keys"
  shows "usage_field k (fst (sse_loop P body))
         = prefer_non_null (map (\<lambda>d. usage_field k (Some d)) (usage_events P body))"
proof -
  let ?es = "usage_events P body"
  have es: "\<forall>d \<in> set ?es. has_usage d"
    by (simp add: usage_events_def has_usage_def)
  have "fst (sse_loop P body) = foldl merge_usage None ?es"
    unfolding sse_loop_def usage_events_def
    using fold_sse_step [of P "(None, [])"] fold_merge_usage_filter [of None]
    by (simp add: has_usage_def [abs_def])
  also have "usage_field k (foldl merge_usage None ?es)
     = prefer_non_null (map (\<lambda>d. usage_field k (Some d)) ?es)"
  proof (cases ?es)
    case Nil
    then show ?thesis by (simp add: usage_field_def)
  next
    case (Cons d ds)
    with es have "has_usage d" "\<forall>x \<in> set ds. has_usage x" by auto
    then show ?thesis
      using fold_merge_usage [of ds d k] assms Cons by (simp add: merge_usage_first)
  qed
  finally show ?thesis .
qed

subsection \<open>Rounding, enhanced data and span attributes\<close>

lemma toFixed6_close: "\<bar>toFixed6 x - x\<bar> \<le> 1 / 2000000"
proof -
  have r: "\<bar>of_int \<lfloor>y + 1 / 2\<rfloor> - y\<bar> \<le> 1 / 2" for y :: rat
  proof -
    have "of_int \<lfloor>y + 1 / 2\<rfloor> \<le> y + 1 / 2" by (rule of_int_floor_le)
    moreover have "y + 1 / 2 < of_int \<lfloor>y + 1 / 2\<rfloor> + 1" by linarith
    ultimately show ?thesis by linarith
  qed
  show ?thesis
  proof (cases "x < 0")
    case True
    have "\<bar>toFixed6 x - x\<bar> = \<bar>of_int \<lfloor>- x * 1000000 + 1 / 2\<rfloor> - (- x * 1000000)\<bar> / 1000000"
      using True by (simp add: toFixed6_def abs_if field_simps)
    also have "\<dots> \<le> (1 / 2) / 1000000"
      using r [of "- x * 1000000"] by (simp add: divide_right_mono)
    finally show ?thesis by simp
  next
    case False
    have "\<bar>toFixed6 x - x\<bar> = \<bar>of_int \<lfloor>x * 1000000 + 1 / 2\<rfloor> - x * 1000000\<bar> / 1000000"
      using False by (simp add: toFixed6_def abs_if field_simps)
    also have "\<dots> \<le> (1 / 2) / 1000000"
      using r [of "x * 1000000"] by (simp add: divide_right_mono)
    finally show ?thesis by simp
  qed
qed

lemma str_or_nonempty: "d \<noteq> [] \<Longrightarrow> str_or x d \<noteq> []"
  by (cases "(x, d)" rule: str_or.cases) auto

lemma num_or_num_or: "num_or x (num_or x 0) = num_or x 0"
  by (cases "(x, 0::int)" rule: num_or.cases) auto

lemma num_or_est: "\<not> truthy_opt x \<Longrightarrow> num_or x d = d"
  by (cases "(x, d)" rule: num_or.cases) auto

lemma enhance_cost:
  assumes "enhance est rd rc rq = Some e"
  shows "costUsd e = toFixed6 (token_cost_sum (pricing_of (model e)) (tokensInput e) (tokensOutput e)
            (tokensCacheRead e) (tokensCacheCreation e))"
    and "model e \<noteq> []"
  using assms
  by (auto simp: enhance_def Let_def calculateModelCost_def token_cost_sum_def num_or_num_or
        num_or_est str_or_nonempty default_model_def
      split: option.splits if_splits)

lemma map_of_foldl_obj_set:
  "map_of (foldl (\<lambda>a (k, v). obj_set k v a) acc kvs) k
   = (case map_of (rev kvs) k of Some v \<Rightarrow> Some v | None \<Rightarrow> map_of acc k)"
  by (induction kvs arbitrary: acc) (auto simp: map_of_obj_set split: option.splits)

lemma attribute_setAttributes:
  "attribute (setAttributes kvs sp) k
   = (case map_of (rev kvs) k of Some v \<Rightarrow> Some v | None \<Rightarrow> attribute sp k)"
  by (simp add: attribute_def setAttributes_def map_of_foldl_obj_set split: option.splits)

lemma attribute_end_span [simp]: "attribute (end_span sp) k = attribute sp k"
  by (simp add: attribute_def end_span_def)

lemma attribute_setStatus [simp]: "attribute (setStatus c m sp) k = attribute sp k"
  by (simp add: attribute_def setStatus_def)

lemma analyse_enhance:
  assumes "fst (analyse P est now rq body) = Some e"
  shows "\<exists>rd rc. enhance est rd rc rq = Some e"
proof -
  from assms obtain rd rc where "read_body P body = Some (rd, rc)"
    and "enhance est rd rc rq = Some e"
    by (auto simp: analyse_def Let_def split: option.splits if_splits)
  then show ?thesis by blast
qed

subsection \<open>Usage merged across the events of a stream\<close>

text \<open>
  The token count on the span is read off the merged usage: without request content
  to estimate from, \<open>ai.tokens.input\<close> is the final \<open>input_tokens\<close>, or 0 when that
  is missing.
\<close>

lemma tokensInput_from_merged_usage:
  "enhance est (Some r) rc None = Some e
   \<Longrightarrow> tokensInput e = num_or (usage_field ''input_tokens'' (Some r)) 0"
  by (auto simp: enhance_def Let_def usage_field_def split: option.splits if_splits)

text \<open>
  C3, as the code has it. Across the events of an SSE response that carry a usage, each
  of \<open>input_tokens\<close>, \<open>cache_creation_input_tokens\<close> and \<open>cache_read_input_tokens\<close> ends
  with the value that "later non-null values override earlier ones" gives: the final
  value is the fold of \<open>new ?? current\<close> over the events in order. No field is sticky;
  an earlier \<open>input_tokens\<close> survives exactly as long as the later events carry none.
\<close>

theorem sse_usage_later_non_null_overrides:
  "usage_field ''input_tokens'' (fst (sse_loop P responseBody))
     = prefer_non_null (map (\<lambda>d. usage_field ''input_tokens'' (Some d)) (usage_events P responseBody))
   \<and> usage_field ''cache_creation_input_tokens'' (fst (sse_loop P responseBody))
     = prefer_non_null
         (map (\<lambda>d. usage_field ''cache_creation_input_tokens'' (Some d)) (usage_events P responseBody))
   \<and> usage_field ''cache_read_input_tokens'' (fst (sse_loop P responseBody))
     = prefer_non_null
         (map (\<lambda>d. usage_field ''cache_read_input_tokens'' (Some d)) (usage_events P responseBody))"
  by (simp add: sse_usage_general merged_keys_def)

text \<open>
  C3 as stated fails: \<open>message_start\<close> carries \<open>input_tokens = 200\<close>, a later
  \<open>message_delta\<close> carries \<open>input_tokens = 5\<close>, and the span reports 5, not 200.
\<close>

theorem sse_input_tokens_not_sticky:
  "attribute
     (complete_api_span (parser_for [sse_start, sse_delta]) no_estimate [] None 0
        (Responded 200 sse_body) example_span) ''ai.tokens.input'' = Some (AInt 5)"
  by code_simp

subsection \<open>Cost\<close>




subsection \<open>Status of the API span\<close>


section \<open>Properties of the tracer\<close>

lemma sdk_startSpan_child:
  "traceId (fst (sdk_startSpan nm k attrs (Some p) g n)) = traceId p"
  "parentSpanId (fst (sdk_startSpan nm k attrs (Some p) g n)) = Some (spanId p)"
  by (simp_all add: sdk_startSpan_def)

lemma startSpan_child_of_root:
  "traceId (fst (startSpan nm k attrs t)) = traceId (rootSpan t)"
  "parentSpanId (fst (startSpan nm k attrs t)) = Some (spanId (rootSpan t))"
  "rootSpan (snd (startSpan nm k attrs t)) = rootSpan t"
  by (simp_all add: startSpan_def Let_def sdk_startSpan_child)

lemma startApiCallSpan_child_of_root:
  "traceId (fst (startApiCallSpan url m t)) = traceId (rootSpan t)"
  "parentSpanId (fst (startApiCallSpan url m t)) = Some (spanId (rootSpan t))"
  "rootSpan (snd (startApiCallSpan url m t)) = rootSpan t"
  by (simp_all add: startApiCallSpan_def startSpan_child_of_root)

lemma startHookEventSpan_child_of_root:
  "traceId (fst (startHookEventSpan e tn t)) = traceId (rootSpan t)"
  "parentSpanId (fst (startHookEventSpan e tn t)) = Some (spanId (rootSpan t))"
  "rootSpan (snd (startHookEventSpan e tn t)) = rootSpan t"
  by (simp_all add: startHookEventSpan_def startSpan_child_of_root split: option.splits)

lemma startHookExecutionSpan_child:
  "traceId (fst (startHookExecutionSpan c p x t)) = traceId p"
  "parentSpanId (fst (startHookExecutionSpan c p x t)) = Some (spanId p)"
  "rootSpan (snd (startHookExecutionSpan c p x t)) = rootSpan t"
  by (simp_all add: startHookExecutionSpan_def Let_def sdk_startSpan_child)

lemma run_op_in_root_trace:
  assumes "in_root_trace rt st"
  shows "in_root_trace rt (run_op x st)"
proof (cases st)
  case (Pair started t)
  with assms have inv: "rootSpan t = rt"
    "\<forall>s \<in> set started. traceId s = traceId rt
        \<and> (parentSpanId s = Some (spanId rt) \<or> (\<exists>p \<in> set started. parentSpanId s = Some (spanId p)))"
    by (simp_all add: in_root_trace_def)
  show ?thesis
  proof (cases x)
    case (StartApiCall url m)
    with Pair inv show ?thesis
      by (auto simp: in_root_trace_def Let_def startApiCallSpan_child_of_root)
  next
    case (StartHookEvent e tn)
    with Pair inv show ?thesis
      by (auto simp: in_root_trace_def Let_def startHookEventSpan_child_of_root)
  next
    case (StartHookExecution c i ex)
    show ?thesis
    proof (cases "i < length started")
      case True
      then have "started ! i \<in> set started" by simp
      with inv have "traceId (started ! i) = traceId rt" by blast
      with Pair inv StartHookExecution True \<open>started ! i \<in> set started\<close> show ?thesis
        by (auto simp: in_root_trace_def Let_def startHookExecutionSpan_child)
    next
      case False
      with Pair inv StartHookExecution show ?thesis
        by (auto simp: in_root_trace_def)
    qed
  qed
qed

lemma run_ops_in_root_trace:
  "in_root_trace (rootSpan t) (run_ops ops t)"
proof -
  have "in_root_trace rt st \<Longrightarrow> in_root_trace rt (foldl (\<lambda>s x. run_op x s) st ops)" for rt st
    by (induction ops arbitrary: st) (simp_all add: run_op_in_root_trace)
  moreover have "in_root_trace (rootSpan t) ([], t)"
    by (simp add: in_root_trace_def)
  ultimately show ?thesis by (simp add: run_ops_def)
qed

text \<open>
  C4, as the code has it. Within one process, every span that the process starts
  through \<open>startSpan\<close> (API call spans, hook event spans) is a child of that process's
  root session span and carries its trace id, and a hook execution span carries the
  trace id of the root through its parent. The root span of a process has no parent.
\<close>

theorem process_spans_share_root_trace:
  "in_root_trace (rootSpan (initializeTracer config gen)) (run_ops ops (initializeTracer config gen))
   \<and> parentSpanId (rootSpan (initializeTracer config gen)) = None
   \<and> traceId (fst (startSpan nm k attrs t)) = traceId (rootSpan t)
   \<and> parentSpanId (fst (startSpan nm k attrs t)) = Some (spanId (rootSpan t))"
proof -
  have "parentSpanId (rootSpan (initializeTracer config gen)) = None"
    by (simp add: initializeTracer_def Let_def sdk_startSpan_def)
  then show ?thesis
    using run_ops_in_root_trace [of "initializeTracer config gen" ops]
    by (simp add: startSpan_child_of_root)
qed

theorem process_spans_share_root_trace_witness:
  "length (fst (run_ops host_script (initializeTracer host_config host_rng))) = 3
   \<and> traceId (fst (run_ops host_script (initializeTracer host_config host_rng)) ! 2)
       = traceId (rootSpan (initializeTracer host_config host_rng))"
proof -
  have l: "length (fst (run_ops host_script (initializeTracer host_config host_rng))) = 3"
    by code_simp
  then have "fst (run_ops host_script (initializeTracer host_config host_rng)) ! 2
      \<in> set (fst (run_ops host_script (initializeTracer host_config host_rng)))"
    by simp
  with process_spans_share_root_trace [of host_config host_rng host_script]
  have "traceId (fst (run_ops host_script (initializeTracer host_config host_rng)) ! 2)
       = traceId (rootSpan (initializeTracer host_config host_rng))"
    by (simp add: in_root_trace_def)
  with l show ?thesis by simp
qed

text \<open>
  C4 as stated fails across processes: the host process and a hook orchestrator
  process each call \<open>initializeTracer\<close>, each root draws its own trace id, and the spans
  the two processes write to the same JSONL differ in \<open>traceId\<close>.
\<close>

theorem processes_have_different_trace_ids:
  "traceId (fst (startApiCallSpan ''https://api.anthropic.com/v1/messages'' ''POST''
                   (initializeTracer host_config host_rng)))
   \<noteq> traceId (fst (startHookEventSpan ''PostToolUse'' (Some ''Read'')
                      (initializeTracer orchestrator_config orchestrator_rng)))"
  by code_simp

section \<open>Properties of the tool-use correlator\<close>

lemma map_of_rev_present_None:
  "k \<notin> fst ` set kvs \<Longrightarrow> map_of (rev (present kvs)) k = None"
  by (induction kvs) (auto simp: present_def List.map_filter_simps map_of_eq_None_iff image_iff
      split: option.splits)

lemma search_intentions_find:
  "search_intentions P tn ti ls
   = (case find (line_matches P tn ti) ls of None \<Rightarrow> Some JNull | Some l \<Rightarrow> line_toolUseId P l)"
  by (induction ls) (auto simp: line_matches_def line_toolUseId_def split: option.splits json.splits)

lemma tool_use_id_attribute:
  "attribute (fst (createToolExecutionSpan ev t)) ''tool.use_id''
   = (if truthy_opt (toolUseId ev) then attr_of (toolUseId ev) else None)"
proof -
  have start: "attribute (fst (startEnhancedToolSpan n i None None t)) ''tool.use_id'' = None" for n i
    by (auto simp: startEnhancedToolSpan_def sdk_startSpan_def Let_def attribute_def
        map_of_foldl_obj_set split: option.splits)
  have rec [simp]: "attribute (recordException e sp) k = attribute sp k" for e sp k
    by (simp add: attribute_def recordException_def)
  have one: "map_of (rev (present [(''tool.use_id'', v)])) ''tool.use_id'' = v" for v
    by (cases v) (simp_all add: present_def List.map_filter_simps)
  show ?thesis
    by (simp add: createToolExecutionSpan_def Let_def attribute_setAttributes start
        map_of_rev_present_None one split: option.splits)
qed

text \<open>
  C2, as the code has it. For a PostToolUse event the correlator reads \<open>events.jsonl\<close>,
  keeps its last 50 non-blank lines (events of every type), and goes through them most
  recent first. A line matches when it parses to a \<open>tool_use_request\<close> whose \<open>toolName\<close>
  is \<open>===\<close> to the event's \<open>tool_name\<close> and whose \<open>JSON.stringify(toolInput)\<close> is the same
  string as \<open>JSON.stringify(tool_input)\<close>, which depends on the order of the keys. The
  first match wins and its \<open>toolUseId\<close>, when truthy, becomes \<open>tool.use_id\<close>; without a
  match, or without a log file, the span is emitted without \<open>tool.use_id\<close>.
\<close>

theorem correlator_first_match_wins:
  "findRecentToolUseId P tn ti (Some fileContent)
     = (case find (line_matches P tn ti) (rev (recentLines fileContent)) of
          None \<Rightarrow> Some JNull
        | Some line \<Rightarrow> line_toolUseId P line)
   \<and> findRecentToolUseId P tn ti None = Some JNull
   \<and> length (recentLines fileContent) \<le> 50
   \<and> attribute (post_tool_use_span P event logFile start fin t) ''tool.use_id''
       = (if truthy_opt (findRecentToolUseId P (get_prop event ''tool_name'')
                           (get_prop event ''tool_input'') logFile)
          then attr_of (findRecentToolUseId P (get_prop event ''tool_name'')
                          (get_prop event ''tool_input'') logFile)
          else None)"
  by (simp add: findRecentToolUseId_def search_intentions_find recentLines_def
      post_tool_use_span_def tool_use_id_attribute tool_execution_event_def)

text \<open>
  Scenario 4: the intention \<open>tu_1\<close> for \<open>read_file\<close> is on the log, the PostToolUse event
  carries the same input with the keys in the same order, and the span is linked.
\<close>

lemma correlator_links_same_key_order:
  "attribute
     (post_tool_use_span (parser_for [intention_tu_1]) post_tool_use_same_order (Some events_log)
        10 25 (initializeTracer host_config host_rng)) ''tool.use_id'' = Some (AStr ''tu_1'')"
  by code_simp

text \<open>
  C2 as stated fails: the same input with its two keys in the other order is
  structurally equal, yet the span gets no \<open>tool.use_id\<close>.
\<close>

theorem correlator_key_order_mismatch:
  "attribute
     (post_tool_use_span (parser_for [intention_tu_1]) post_tool_use_other_order (Some events_log)
        10 25 (initializeTracer host_config host_rng)) ''tool.use_id'' = None"
  by code_simp

section \<open>Properties of the hook orchestrator\<close>

lemma run_hooks_executed:
  "executed (run_hooks ex inp ev cmds st)
     = executed st @ filter (\<lambda>c. \<not> str_includes c ''orchestrator'') cmds"
  by (induction cmds arbitrary: st) (auto simp: Let_def split: exec_result.splits)

lemma run_hooks_outputs:
  "hookOutputs (run_hooks ex inp ev cmds st)
     = hookOutputs st
       @ returned_outputs ex inp (filter (\<lambda>c. \<not> str_includes c ''orchestrator'') cmds)"
  by (induction cmds arbitrary: st)
     (auto simp: Let_def returned_outputs_def List.map_filter_simps split: exec_result.splits)

lemma merge_outputs_first_block:
  "merge_outputs P fr outs
     = (case first_block P outs of
          Some j \<Rightarrow> stringify j
        | None \<Rightarrow> stringify (JObj (foldl merge_fields fr (mergeable P outs))))"
  by (induction outs arbitrary: fr)
     (auto simp: first_block_def block_of_def mergeable_def List.map_filter_simps
        split: option.splits list.splits)



section \<open>Properties of the OTLP writer\<close>

text \<open>
  C7, as the code has it. \<open>export\<close> never fails: it hands \<open>SUCCESS\<close> to the callback in
  every case. When the serializer throws on the batch, or when the trace file cannot be
  written, the error is logged with \<open>console.error\<close> and the whole batch is dropped:
  the file system is unchanged, no span of the batch is written, with or without a
  marker. Otherwise exactly one line, the serialised batch, is appended.
\<close>

theorem export_always_succeeds_and_drops_failed_batch:
  "result_code (export serializeRequest e spans fs) = SUCCESS
   \<and> (serializeRequest (map (stamp e) spans) = None
        \<longrightarrow> fs_after (export serializeRequest e spans fs) = fs
            \<and> errors_logged (export serializeRequest e spans fs) \<noteq> [])
   \<and> (\<not> writable fs (outputPath e)
        \<longrightarrow> fs_after (export serializeRequest e spans fs) = fs
            \<and> errors_logged (export serializeRequest e spans fs) \<noteq> [])
   \<and> (\<forall>otlpJson. serializeRequest (map (stamp e) spans) = Some otlpJson \<and> writable fs (outputPath e)
        \<longrightarrow> files (fs_after (export serializeRequest e spans fs)) (outputPath e)
              = Some ((case files fs (outputPath e) of None \<Rightarrow> [] | Some old \<Rightarrow> old)
                      @ otlpJson @ [CHR 0x0A])
            \<and> errors_logged (export serializeRequest e spans fs) = [])"
  by (auto simp: export_def Let_def appendFileSync_def split: option.splits sum.splits)

theorem export_always_succeeds_and_drops_failed_batch_witness:
  "names_serializer (map (stamp run_exporter) [example_span, unnamed_span]) = None
   \<and> fs_after (export names_serializer run_exporter [example_span, unnamed_span] empty_fs) = empty_fs
   \<and> \<not> writable readonly_fs (outputPath run_exporter)
   \<and> fs_after (export names_serializer run_exporter [example_span] readonly_fs) = readonly_fs
   \<and> names_serializer (map (stamp run_exporter) [example_span])
       = Some ''[\"API POST https://api.anthropic.com/v1/messages\"]''
   \<and> writable empty_fs (outputPath run_exporter)
   \<and> files (fs_after (export names_serializer run_exporter [example_span] empty_fs))
         (outputPath run_exporter)
       = Some (''[\"API POST https://api.anthropic.com/v1/messages\"]'' @ [CHR 0x0A])"
proof -
  have a: "names_serializer (map (stamp run_exporter) [example_span, unnamed_span]) = None"
    by code_simp
  have b: "\<not> writable readonly_fs (outputPath run_exporter)"
    by (simp add: readonly_fs_def)
  have c: "names_serializer (map (stamp run_exporter) [example_span])
       = Some ''[\"API POST https://api.anthropic.com/v1/messages\"]''"
    by code_simp
  have d: "writable empty_fs (outputPath run_exporter)"
    by (simp add: empty_fs_def)
  have e: "files empty_fs (outputPath run_exporter) = None"
    by (simp add: empty_fs_def)
  show ?thesis
    using a b c d e
      export_always_succeeds_and_drops_failed_batch
        [of names_serializer run_exporter "[example_span, unnamed_span]" empty_fs]
      export_always_succeeds_and_drops_failed_batch
        [of names_serializer run_exporter "[example_span]" readonly_fs]
      export_always_succeeds_and_drops_failed_batch
        [of names_serializer run_exporter "[example_span]" empty_fs]
    by simp
qed

text \<open>
  C7 as stated fails twice: with an unwritable run directory the result is \<open>SUCCESS\<close>,
  not an \<open>IOError\<close>; and when one span of a batch of two cannot be serialised, nothing
  is written, so the other span is lost with it.
\<close>

theorem export_reports_success_and_loses_batch:
  "\<not> writable readonly_fs (outputPath run_exporter)
   \<and> result_code (export names_serializer run_exporter [example_span] readonly_fs) = SUCCESS
   \<and> names_serializer [stamp run_exporter example_span] \<noteq> None
   \<and> names_serializer [stamp run_exporter unnamed_span] = None
   \<and> files (fs_after (export names_serializer run_exporter [example_span, unnamed_span] empty_fs))
         (outputPath run_exporter) = None"
  by code_simp

section \<open>Properties of the report materializer\<close>

lemma fold_jsonl_step:
  "foldl (jsonl_step P) acc ls
     = (fst acc @ kept_spans P ls,
        snd acc @ map (\<lambda>l. ''Skipping invalid JSONL line:'') (skipped_lines P ls))"
  by (induction ls arbitrary: acc)
     (auto simp: jsonl_step_def kept_spans_def skipped_lines_def List.map_filter_simps
        split: option.splits)

lemma kept_spans_include:
  "line \<in> set ls \<Longrightarrow> line_resourceSpans P line = Some xs \<Longrightarrow> set xs \<subseteq> set (kept_spans P ls)"
  by (induction ls) (auto simp: kept_spans_def List.map_filter_simps split: option.splits)

lemma flattenSpans_nonempty: "flattenSpans r \<noteq> []"
  by (cases r) simp

text \<open>Whatever root the parser returns, the viewer's empty-trace message is not shown.\<close>

lemma validate_spans_never_empty_state:
  "validate_spans r \<noteq> ShowError ''No trace spans found - the trace data appears to be empty''"
  by (auto simp: validate_spans_def Let_def flattenSpans_nonempty)


lemma render_page_timestamp:
  "timestamp_of now2 = timestamp_of now1
   \<Longrightarrow> render_page tpl b td now2 rid title = render_page tpl b td now1 rid title"
  by (simp add: render_page_def)

text \<open>
  C8, as the code has it. The page embeds the time of generation, cut to the second.
  A second run on the file system that the first run left behind, with the same JSONL,
  template, bundle and title, writes the same bytes and leaves the file system as it
  is, provided both runs read the same second off the clock and the report is not
  written over one of the inputs.
\<close>

theorem report_reproducible_within_the_same_second:
  assumes run1: "generateHTML P g now1 run_id otlpFile outputFile title fs = Inr (fs1, warnings)"
    and paths: "outputFile \<noteq> otlpFile" "outputFile \<noteq> templatePath g" "outputFile \<noteq> bundlePath g"
    and clock: "timestamp_of now2 = timestamp_of now1"
  shows "generateHTML P g now2 run_id otlpFile outputFile title fs1 = Inr (fs1, warnings)"
proof -
  from run1 obtain td tpl b html where
    rt: "read_trace P otlpFile (files fs otlpFile) = Inr (td, warnings)"
    and lt: "loadTemplateFiles g fs = Inr (tpl, b)"
    and rp: "render_page tpl b td now1 run_id title = Inr html"
    and wr: "writeFileSync outputFile html fs = Inr fs1"
    by (auto simp: generateHTML_def split: sum.splits prod.splits)
  from wr have w: "writable fs outputFile"
    and fs1: "fs1 = fs\<lparr>files := (files fs)(outputFile \<mapsto> html)\<rparr>"
    by (auto simp: writeFileSync_def split: if_splits)
  have rt1: "read_trace P otlpFile (files fs1 otlpFile) = Inr (td, warnings)"
    using rt paths(1) by (simp add: fs1)
  have "files fs1 (bundlePath g) = files fs (bundlePath g)"
    and "files fs1 (templatePath g) = files fs (templatePath g)"
    using paths(2,3) by (simp_all add: fs1)
  then have lt1: "loadTemplateFiles g fs1 = Inr (tpl, b)"
    using lt by (simp only: loadTemplateFiles_def)
  have rp1: "render_page tpl b td now2 run_id title = Inr html"
    using rp render_page_timestamp [OF clock] by simp
  have wr1: "writeFileSync outputFile html fs1 = Inr fs1"
    using w by (simp add: fs1 writeFileSync_def)
  show ?thesis
    by (simp add: generateHTML_def rt1 lt1 rp1 wr1)
qed



theorem report_reproducible_within_the_same_second_witness:
  "first_run = Inr (fs_left fs_with_trace first_run, warnings_of first_run)
   \<and> report_path \<noteq> trace_path \<and> report_path \<noteq> templatePath page_generator
   \<and> report_path \<noteq> bundlePath page_generator
   \<and> timestamp_of clock_b = timestamp_of clock_a
   \<and> generateHTML otlp_parser page_generator clock_b ''run-1'' trace_path report_path None
         (fs_left fs_with_trace first_run)
       = Inr (fs_left fs_with_trace first_run, warnings_of first_run)"
proof -
  have ok: "\<not> isl first_run"
    by code_simp
  have "\<not> isl x \<Longrightarrow> x = Inr (fs_left fs_with_trace x, warnings_of x)" for x
    by (cases x) (auto simp: fs_left_def warnings_of_def)
  with ok have r: "first_run = Inr (fs_left fs_with_trace first_run, warnings_of first_run)"
    by blast
  then have r': "generateHTML otlp_parser page_generator clock_a ''run-1'' trace_path report_path None
       fs_with_trace = Inr (fs_left fs_with_trace first_run, warnings_of first_run)"
    by (simp add: first_run_def)
  have p: "report_path \<noteq> trace_path" "report_path \<noteq> templatePath page_generator"
    "report_path \<noteq> bundlePath page_generator"
    by code_simp+
  have c: "timestamp_of clock_b = timestamp_of clock_a"
    by code_simp
  from report_reproducible_within_the_same_second [OF r' p c] r p c show ?thesis
    by simp
qed

text \<open>
  C8 as stated fails: the same run repeated one second later on the unchanged JSONL
  writes a different page.
\<close>

theorem report_differs_a_second_later:
  "written first_run report_path
   \<noteq> written
       (generateHTML otlp_parser page_generator clock_c ''run-1'' trace_path report_path None
          (fs_left fs_with_trace first_run)) report_path"
  by code_simp

section \<open>Properties of the spawn interceptor\<close>

text \<open>
  With an array of arguments, or with the arguments left out, the interceptor returns
  the child that the primitive returns for the same command, arguments and options; a
  spawn that is not taken for a hook is passed through without a capture; and the
  wrapper over \<open>stdin.write\<close> hands every chunk on unchanged.
\<close>

lemma interceptedSpawn_array_or_omitted:
  "(\<forall>ob. args \<noteq> ArgsOptions ob)
   \<Longrightarrow> \<exists>cap. interceptedSpawn originalSpawn penv command args options
          = Inr (spawn_primitive originalSpawn command args options, cap)"
  by (cases args) (auto simp: interceptedSpawn_def spawn_primitive_def Let_def)

lemma interceptedSpawn_pass_through:
  "\<not> isClaudeHook penv command xs (case options of Some ob \<Rightarrow> ob | None \<Rightarrow> default_options)
   \<Longrightarrow> \<not> list_ex (\<lambda>arg. str_includes arg ''INTERCEPTOR TEST'') xs
   \<Longrightarrow> interceptedSpawn originalSpawn penv command (ArgsArray xs) options
       = Inr (spawn_primitive originalSpawn command (ArgsArray xs) options, None)"
  by (auto simp: interceptedSpawn_def spawn_primitive_def Let_def)

lemma stdin_write_forwards_chunk: "snd (stdin_write P cap chunk) = chunk"
  by (simp add: stdin_write_def Let_def)

text \<open>
  C10 does not hold for every call. \<open>spawn("ls", {cwd: "/tmp"})\<close>, the documented form
  with the options in the second place, makes the primitive start \<open>ls\<close> with no
  arguments and these options; the interceptor binds the options object to \<open>args\<close>,
  calls \<open>args.some\<close> and throws a \<open>TypeError\<close> before it reaches the primitive, so no
  child process is returned.
\<close>

theorem interceptedSpawn_throws_on_options_in_second_place:
  "interceptedSpawn echo_spawn [] ''ls'' (ArgsOptions ls_options) None
     = Inl (TypeError ''args.some is not a function'')
   \<and> spawn_primitive echo_spawn ''ls'' (ArgsOptions ls_options) None = (''ls'', [], ls_options)"
  by (simp add: interceptedSpawn_def spawn_primitive_def echo_spawn_def)

end
